theory Spec2Isabelle
  imports Main
begin

section \<open>JavaScript values used by the token layer\<close>

text \<open>
  Optional properties of a JavaScript object are \<open>option\<close> values: \<open>None\<close> is
  \<^verbatim>\<open>undefined\<close>. A string is truthy when it is present and non-empty, a number when it
  is present and non-zero. The number fields (\<^verbatim>\<open>expires_in\<close> in seconds, \<^verbatim>\<open>issued_at\<close>
  and \<^verbatim>\<open>Date.now()\<close> in milliseconds) hold integers that a binary64 float represents
  exactly; the results of arithmetic on them are rounded as binary64 rounds, below.
\<close>

fun truthy_str :: "string option \<Rightarrow> bool" where
  "truthy_str None = False"
| "truthy_str (Some s) = (s \<noteq> [])"

fun truthy_num :: "int option \<Rightarrow> bool" where
  "truthy_num None = False"
| "truthy_num (Some n) = (n \<noteq> 0)"

text \<open>\<^verbatim>\<open>a || b\<close> on optional strings, and with a string or number default.\<close>

definition or_str :: "string option \<Rightarrow> string option \<Rightarrow> string option" where
  "or_str a b = (if truthy_str a then a else b)"

fun or_str_default :: "string option \<Rightarrow> string \<Rightarrow> string" where
  "or_str_default None d = d"
| "or_str_default (Some s) d = (if s \<noteq> [] then s else d)"

fun or_num_default :: "int option \<Rightarrow> int \<Rightarrow> int" where
  "or_num_default None d = d"
| "or_num_default (Some n) d = (if n \<noteq> 0 then n else d)"

text \<open>A template literal \<^verbatim>\<open>${v}\<close> prints an absent value as the word undefined.\<close>

fun template :: "string option \<Rightarrow> string" where
  "template None = ''undefined''"
| "template (Some s) = s"

section \<open>Binary64 arithmetic on integers\<close>

text \<open>
  The result of a JavaScript \<^verbatim>\<open>+\<close>, \<^verbatim>\<open>-\<close> or \<^verbatim>\<open>*\<close> on two integer-valued floats is
  the exact integer result rounded to 53 significant bits, ties to the even significand,
  and an infinity when the rounded magnitude reaches \<open>2 ^ 1024\<close>.
\<close>

datatype number = Num int | PosInfinity | NegInfinity

fun bit_length :: "nat \<Rightarrow> nat" where
  "bit_length n = (if n = 0 then 0 else Suc (bit_length (n div 2)))"

declare bit_length.simps [simp del]

definition round_mag :: "nat \<Rightarrow> nat" where
  "round_mag n =
     (if n < 2 ^ 53 then n
      else
        (let sh = bit_length n - 53; q = n div 2 ^ sh; r = n mod 2 ^ sh; half = 2 ^ (sh - 1)
         in if half < r \<or> (r = half \<and> odd q) then (q + 1) * 2 ^ sh else q * 2 ^ sh))"

definition fl :: "int \<Rightarrow> number" where
  "fl x =
     (let m = round_mag (nat \<bar>x\<bar>)
      in if 2 ^ 1024 \<le> m then (if x < 0 then NegInfinity else PosInfinity)
         else Num (if x < 0 then - int m else int m))"

text \<open>\<^verbatim>\<open>a * b\<close>, \<^verbatim>\<open>a + y\<close> and \<^verbatim>\<open>y - b\<close> for finite \<open>a\<close>, \<open>b\<close> and a computed \<open>y\<close>;
  \<^verbatim>\<open>now > y\<close>; and the truthiness of a computed number.\<close>

definition js_times :: "int \<Rightarrow> int \<Rightarrow> number" where
  "js_times a b = fl (a * b)"

fun js_plus :: "int \<Rightarrow> number \<Rightarrow> number" where
  "js_plus a (Num b) = fl (a + b)"
| "js_plus a PosInfinity = PosInfinity"
| "js_plus a NegInfinity = NegInfinity"

fun js_minus :: "number \<Rightarrow> int \<Rightarrow> number" where
  "js_minus (Num a) b = fl (a - b)"
| "js_minus PosInfinity b = PosInfinity"
| "js_minus NegInfinity b = NegInfinity"

fun js_greater :: "int \<Rightarrow> number \<Rightarrow> bool" where
  "js_greater now (Num b) = (b < now)"
| "js_greater now PosInfinity = False"
| "js_greater now NegInfinity = True"

fun truthy_number :: "number \<Rightarrow> bool" where
  "truthy_number (Num n) = (n \<noteq> 0)"
| "truthy_number PosInfinity = True"
| "truthy_number NegInfinity = True"

section \<open>Data model\<close>

text \<open>
  The interface \<^verbatim>\<open>TokenResponse\<close> of smart-auth.d.ts. The token's own \<^verbatim>\<open>scope\<close> is
  named \<open>token_scope\<close> here, the name \<open>scope\<close> being the configuration field of the client.
\<close>

record TokenResponse =
  access_token :: "string option"
  token_type :: "string option"
  expires_in :: "int option"
  refresh_token :: "string option"
  token_scope :: "string option"
  patient :: "string option"
  id_token :: "string option"
  issued_at :: "int option"

text \<open>The body \<^verbatim>\<open>responseData\<close> of the vendor sign-in endpoint, as \<^verbatim>\<open>signIn\<close> reads it.\<close>

record responseData =
  rd_token :: "string option"
  rd_access_token :: "string option"
  rd_token_type :: "string option"
  rd_expires_in :: "int option"
  rd_refresh_token :: "string option"

text \<open>The constructor's \<^verbatim>\<open>options\<close> and the fields of the class \<^verbatim>\<open>SmartAuth\<close>.\<close>

record options =
  opt_clientId :: string
  opt_clientSecret :: "string option"
  opt_redirectUri :: string
  opt_scope :: string
  opt_authorizeUrl :: string
  opt_tokenUrl :: string
  opt_baseUrl :: "string option"

record SmartAuth =
  clientId :: string
  clientSecret :: "string option"
  redirectUri :: string
  scope :: string
  authorizeUrl :: string
  tokenUrl :: string
  baseUrl :: string
  tokenStorage :: string
  currentToken :: "TokenResponse option"

section \<open>The world outside the process\<close>

datatype payload =
    Form "(string \<times> string) list"
  | Json "(string \<times> string) list"
  | Raw string

record http_request =
  url :: string
  http_method :: "string option"
  headers :: "(string \<times> string) list"
  body :: "payload option"

text \<open>
  A response: \<open>json\<close> is what \<^verbatim>\<open>response.json()\<close> resolves to (\<open>None\<close> when the body is
  not JSON and the call rejects), \<open>body_text\<close> what \<^verbatim>\<open>response.text()\<close> resolves to.
\<close>

record 'a http_response =
  status :: nat
  statusText :: string
  body_text :: string
  json :: "'a option"

definition ok :: "'a http_response \<Rightarrow> bool" where
  "ok r = (200 \<le> status r \<and> status r \<le> 299)"

datatype 'a fetch_result = Fetch_rejected | Fetch_response "'a http_response"

text \<open>
  The token file: missing, present but unreadable (\<^verbatim>\<open>readFileSync\<close> throws), readable
  but not JSON (\<^verbatim>\<open>JSON.parse\<close> throws), or the JSON document of a token. The document
  is kept as the value it denotes: \<^verbatim>\<open>JSON.stringify\<close> leaves out absent properties and
  \<^verbatim>\<open>JSON.parse\<close> reads the text back to the same properties, which is the contract of
  the library and not code of this repository.
\<close>

datatype token_file = Absent | Unreadable | Corrupt | Stored TokenResponse

record disk =
  content :: token_file
  write_ok :: bool
  unlink_ok :: bool

text \<open>
  What the process has done and holds outside the objects: the token file and the list of
  HTTP requests issued so far, oldest first.
\<close>

record proc =
  files :: disk
  trace :: "http_request list"

text \<open>
  The environment of one operation. The clock may move whenever the operation waits for
  the network, so a reading of \<^verbatim>\<open>Date.now()\<close> depends on the requests issued so far.
  \<open>url_origin\<close> is \<^verbatim>\<open>new URL(u).origin\<close> and \<open>url_resolve\<close> is
  \<^verbatim>\<open>new URL(path, base).toString()\<close>; both are \<open>None\<close> where the constructor throws.
  \<open>homedir\<close> is \<^verbatim>\<open>os.homedir()\<close> and \<open>path_join\<close> is \<^verbatim>\<open>path.join\<close> on two segments.
\<close>

record world =
  clock :: "http_request list \<Rightarrow> int"
  homedir :: string
  path_join :: "string \<Rightarrow> string \<Rightarrow> string"
  url_origin :: "string \<Rightarrow> string option"
  url_resolve :: "string \<Rightarrow> string \<Rightarrow> string option"
  token_server :: "http_request \<Rightarrow> TokenResponse fetch_result"
  signin_server :: "http_request \<Rightarrow> responseData fetch_result"
  api_server :: "http_request \<Rightarrow> string fetch_result"

definition Date_now :: "world \<Rightarrow> proc \<Rightarrow> int" where
  "Date_now w p = clock w (trace p)"

definition issue :: "http_request \<Rightarrow> proc \<Rightarrow> proc" where
  "issue rq p = p\<lparr>trace := trace p @ [rq]\<rparr>"

section \<open>Failures\<close>

text \<open>One constructor for each \<^verbatim>\<open>throw new Error(...)\<close> of the sources, with the values
  its message interpolates, and one for each way a library call rejects.\<close>

datatype error =
    NoCredential
  | NoRefreshToken
  | TokenExpiredNoRefresh
  | TokenExchangeFailed nat string
  | TokenRefreshFailed nat string
  | AuthenticationFailed nat string string
  | NoAccessToken
  | QueryExecutionFailed nat string string
  | FhirRequestFailed nat string
  | NoAuthToken
  | AuthenticationExpired
  | ApiRequestFailed nat
  | TransportFailure
  | BodyNotJson
  | InvalidUrl
  | NullDereference

section \<open>smart-auth.js: the class SmartAuth\<close>

text \<open>\<^verbatim>\<open>saveToken\<close>: stamps \<^verbatim>\<open>issued_at\<close> on the live token when it is missing, then
  writes the file; a failed write is logged and nothing else happens.\<close>

definition saveToken :: "world \<Rightarrow> SmartAuth \<Rightarrow> proc \<Rightarrow> SmartAuth \<times> proc" where
  "saveToken w a p =
     (case currentToken a of
        None \<Rightarrow> (a, p)
      | Some t \<Rightarrow>
          (let t' = (if truthy_num (issued_at t) then t
                     else t\<lparr>issued_at := Some (Date_now w p)\<rparr>);
               a' = a\<lparr>currentToken := Some t'\<rparr>
           in if write_ok (files p)
              then (a', p\<lparr>files := (files p)\<lparr>content := Stored t'\<rparr>\<rparr>)
              else (a', p)))"

text \<open>\<^verbatim>\<open>loadToken\<close>: reads the file when it exists; any exception leaves no token.\<close>

definition loadToken :: "SmartAuth \<Rightarrow> proc \<Rightarrow> SmartAuth" where
  "loadToken a p =
     (case content (files p) of
        Absent \<Rightarrow> a
      | Unreadable \<Rightarrow> a\<lparr>currentToken := None\<rparr>
      | Corrupt \<Rightarrow> a\<lparr>currentToken := None\<rparr>
      | Stored t \<Rightarrow> a\<lparr>currentToken := Some t\<rparr>)"

text \<open>\<^verbatim>\<open>clearToken\<close>: forgets the token and deletes the file, logging a failure.\<close>

definition clearToken :: "SmartAuth \<Rightarrow> proc \<Rightarrow> SmartAuth \<times> proc" where
  "clearToken a p =
     (let a' = a\<lparr>currentToken := None\<rparr>
      in case content (files p) of
           Absent \<Rightarrow> (a', p)
         | _ \<Rightarrow> if unlink_ok (files p)
                then (a', p\<lparr>files := (files p)\<lparr>content := Absent\<rparr>\<rparr>)
                else (a', p))"

text \<open>The constructor. The origin of the authorize URL is computed only when no base
  URL is given, and an invalid URL there is the only way construction throws.\<close>

definition blank_SmartAuth :: "world \<Rightarrow> options \<Rightarrow> string \<Rightarrow> SmartAuth" where
  "blank_SmartAuth w opts b =
     \<lparr>clientId = opt_clientId opts,
      clientSecret = (if truthy_str (opt_clientSecret opts) then opt_clientSecret opts else None),
      redirectUri = opt_redirectUri opts, scope = opt_scope opts,
      authorizeUrl = opt_authorizeUrl opts, tokenUrl = opt_tokenUrl opts,
      baseUrl = b,
      tokenStorage = path_join w (homedir w) ''.fhir-mcp-tokens.json'',
      currentToken = None\<rparr>"

definition new_SmartAuth :: "world \<Rightarrow> options \<Rightarrow> proc \<Rightarrow> error + SmartAuth" where
  "new_SmartAuth w opts p =
     (case (if truthy_str (opt_baseUrl opts) then opt_baseUrl opts
            else url_origin w (opt_authorizeUrl opts)) of
        None \<Rightarrow> Inl InvalidUrl
      | Some b \<Rightarrow> Inr (loadToken (blank_SmartAuth w opts b) p))"

text \<open>The optional \<^verbatim>\<open>client_secret\<close> parameter of both token requests.\<close>

definition secret_param :: "SmartAuth \<Rightarrow> (string \<times> string) list" where
  "secret_param a =
     (case clientSecret a of
        None \<Rightarrow> []
      | Some cs \<Rightarrow> if cs \<noteq> [] then [(''client_secret'', cs)] else [])"

definition token_request :: "SmartAuth \<Rightarrow> (string \<times> string) list \<Rightarrow> http_request" where
  "token_request a params =
     \<lparr>url = tokenUrl a, http_method = Some ''POST'',
      headers = [(''Content-Type'', ''application/x-www-form-urlencoded'')],
      body = Some (Form (params @ secret_param a))\<rparr>"

text \<open>The tail shared by the three acquisitions: the parsed token becomes the live one, is
  saved, and is returned (the same object, so with the stamp \<^verbatim>\<open>saveToken\<close> added).\<close>

definition adopt :: "world \<Rightarrow> TokenResponse \<Rightarrow> SmartAuth \<Rightarrow> proc \<Rightarrow>
    (error + TokenResponse) \<times> SmartAuth \<times> proc" where
  "adopt w tok a p =
     (case saveToken w (a\<lparr>currentToken := Some tok\<rparr>) p of
        (a', p') \<Rightarrow>
          (case currentToken a' of
             None \<Rightarrow> (Inl NullDereference, a', p')
           | Some t \<Rightarrow> (Inr t, a', p')))"

definition exchange_request :: "SmartAuth \<Rightarrow> string \<Rightarrow> http_request" where
  "exchange_request a code =
     token_request a
       [(''grant_type'', ''authorization_code''), (''code'', code),
        (''client_id'', clientId a), (''redirect_uri'', redirectUri a)]"

definition exchangeCodeForToken :: "world \<Rightarrow> string \<Rightarrow> SmartAuth \<Rightarrow> proc \<Rightarrow>
    (error + TokenResponse) \<times> SmartAuth \<times> proc" where
  "exchangeCodeForToken w code a p =
     (let rq = exchange_request a code; p1 = issue rq p
      in case token_server w rq of
           Fetch_rejected \<Rightarrow> (Inl TransportFailure, a, p1)
         | Fetch_response r \<Rightarrow>
             if \<not> ok r then (Inl (TokenExchangeFailed (status r) (statusText r)), a, p1)
             else (case json r of
                     None \<Rightarrow> (Inl BodyNotJson, a, p1)
                   | Some tok \<Rightarrow> adopt w tok a p1))"

definition refresh_request :: "SmartAuth \<Rightarrow> string \<Rightarrow> http_request" where
  "refresh_request a rt =
     token_request a
       [(''grant_type'', ''refresh_token''), (''refresh_token'', rt),
        (''client_id'', clientId a)]"

text \<open>\<^verbatim>\<open>refreshToken || this.currentToken?.refresh_token\<close>.\<close>

definition tokenToUse :: "string option \<Rightarrow> SmartAuth \<Rightarrow> string option" where
  "tokenToUse arg a =
     or_str arg (case currentToken a of None \<Rightarrow> None | Some t \<Rightarrow> refresh_token t)"

definition refreshToken :: "world \<Rightarrow> string option \<Rightarrow> SmartAuth \<Rightarrow> proc \<Rightarrow>
    (error + TokenResponse) \<times> SmartAuth \<times> proc" where
  "refreshToken w arg a p =
     (if \<not> truthy_str (tokenToUse arg a) then (Inl NoRefreshToken, a, p)
      else
        (let rq = refresh_request a (template (tokenToUse arg a)); p1 = issue rq p
         in case token_server w rq of
              Fetch_rejected \<Rightarrow> (Inl TransportFailure, a, p1)
            | Fetch_response r \<Rightarrow>
                if \<not> ok r then (Inl (TokenRefreshFailed (status r) (statusText r)), a, p1)
                else (case json r of
                        None \<Rightarrow> (Inl BodyNotJson, a, p1)
                      | Some tok \<Rightarrow> adopt w tok a p1)))"

definition signin_request :: "SmartAuth \<Rightarrow> string \<Rightarrow> string \<Rightarrow> http_request" where
  "signin_request a username password =
     \<lparr>url = baseUrl a @ ''/api/auth/signin'', http_method = Some ''POST'',
      headers = [(''Content-Type'', ''application/json'')],
      body = Some (Json [(''username'', username), (''password'', password)])\<rparr>"

text \<open>The mapping of the vendor's answer to a \<^verbatim>\<open>TokenResponse\<close>, at clock reading \<open>now\<close>.\<close>

definition adapt :: "responseData \<Rightarrow> int \<Rightarrow> TokenResponse" where
  "adapt d now =
     \<lparr>access_token = or_str (rd_token d) (rd_access_token d),
      token_type = Some (or_str_default (rd_token_type d) ''Bearer''),
      expires_in = Some (or_num_default (rd_expires_in d) 3600),
      refresh_token = rd_refresh_token d,
      token_scope = None, patient = None, id_token = None,
      issued_at = Some now\<rparr>"

definition signIn :: "world \<Rightarrow> string \<Rightarrow> string \<Rightarrow> SmartAuth \<Rightarrow> proc \<Rightarrow>
    (error + TokenResponse) \<times> SmartAuth \<times> proc" where
  "signIn w username password a p =
     (let rq = signin_request a username password; p1 = issue rq p
      in case signin_server w rq of
           Fetch_rejected \<Rightarrow> (Inl TransportFailure, a, p1)
         | Fetch_response r \<Rightarrow>
             if \<not> ok r
             then (Inl (AuthenticationFailed (status r) (statusText r) (body_text r)), a, p1)
             else (case json r of
                     None \<Rightarrow> (Inl BodyNotJson, a, p1)
                   | Some d \<Rightarrow> adopt w (adapt d (Date_now w p1)) a p1))"

text \<open>\<^verbatim>\<open>expiresAt\<close> of \<^verbatim>\<open>getAccessToken\<close>: \<open>None\<close> is \<^verbatim>\<open>null\<close>.\<close>

definition expiresAt :: "TokenResponse \<Rightarrow> int \<Rightarrow> number option" where
  "expiresAt t now =
     (case expires_in t of
        None \<Rightarrow> None
      | Some e \<Rightarrow>
          if e \<noteq> 0 then Some (js_plus (or_num_default (issued_at t) now) (js_times e 1000))
          else None)"

text \<open>\<^verbatim>\<open>expiresAt && Date.now() > expiresAt - 5 * 60 * 1000\<close>.\<close>

definition about_to_expire :: "TokenResponse \<Rightarrow> int \<Rightarrow> bool" where
  "about_to_expire t now =
     (case expiresAt t now of
        None \<Rightarrow> False
      | Some x \<Rightarrow> truthy_number x \<and> js_greater now (js_minus x (5 * 60 * 1000)))"

definition getAccessToken :: "world \<Rightarrow> SmartAuth \<Rightarrow> proc \<Rightarrow>
    (error + string option) \<times> SmartAuth \<times> proc" where
  "getAccessToken w a p =
     (case currentToken a of
        None \<Rightarrow> (Inl NoCredential, a, p)
      | Some t \<Rightarrow>
          if about_to_expire t (Date_now w p)
          then (if truthy_str (refresh_token t)
                then (case refreshToken w (refresh_token t) a p of
                        (Inl e, a', p') \<Rightarrow> (Inl e, a', p')
                      | (Inr _, a', p') \<Rightarrow>
                          (case currentToken a' of
                             None \<Rightarrow> (Inl NullDereference, a', p')
                           | Some t' \<Rightarrow> (Inr (access_token t'), a', p')))
                else (Inl TokenExpiredNoRefresh, a, p))
          else (Inr (access_token t), a, p))"

section \<open>The class FhirClient\<close>

text \<open>The client holds the manager, when there is one, and a manually set token. The
  base URL field is named \<open>fhir_baseUrl\<close>, apart from the manager's own.\<close>

record FhirClient =
  fhir_baseUrl :: string
  accessToken :: "string option"
  smartAuth :: "SmartAuth option"

text \<open>The second argument of \<^verbatim>\<open>request\<close>, handed on to \<^verbatim>\<open>fetch\<close>.\<close>

record fetch_options =
  fo_method :: "string option"
  fo_headers :: "(string \<times> string) list option"
  fo_body :: "payload option"

definition new_FhirClient :: "string \<Rightarrow> SmartAuth option \<Rightarrow> FhirClient" where
  "new_FhirClient b sa = \<lparr>fhir_baseUrl = b, accessToken = None, smartAuth = sa\<rparr>"

definition setAccessToken :: "string \<Rightarrow> FhirClient \<Rightarrow> FhirClient" where
  "setAccessToken token c = c\<lparr>accessToken := Some token\<rparr>"

text \<open>Assignment to a property of the headers object: an existing key keeps its place.\<close>

fun set_header :: "string \<Rightarrow> string \<Rightarrow> (string \<times> string) list \<Rightarrow> (string \<times> string) list" where
  "set_header k v [] = [(k, v)]"
| "set_header k v ((k', v') # hs) =
     (if k' = k then (k, v) # hs else (k', v') # set_header k v hs)"

text \<open>The object spread \<^verbatim>\<open>{...base, ...extra}\<close>.\<close>

definition spread :: "(string \<times> string) list \<Rightarrow> (string \<times> string) list \<Rightarrow> (string \<times> string) list" where
  "spread base extra = fold (\<lambda>kv hs. set_header (fst kv) (snd kv) hs) extra base"

definition bearer :: "string option \<Rightarrow> string" where
  "bearer token = ''Bearer '' @ template token"

text \<open>The token choice of \<^verbatim>\<open>executeQuery\<close>: the manager first, the manual token when the
  manager throws or is missing. The result is the variable \<^verbatim>\<open>token\<close>.\<close>

definition choose_token :: "world \<Rightarrow> FhirClient \<Rightarrow> proc \<Rightarrow> string option \<times> FhirClient \<times> proc" where
  "choose_token w c p =
     (case smartAuth c of
        Some a \<Rightarrow>
          (case getAccessToken w a p of
             (Inr t, a', p') \<Rightarrow> (t, c\<lparr>smartAuth := Some a'\<rparr>, p')
           | (Inl e, a', p') \<Rightarrow>
               (if truthy_str (accessToken c) then accessToken c else None,
                c\<lparr>smartAuth := Some a'\<rparr>, p'))
      | None \<Rightarrow> (if truthy_str (accessToken c) then accessToken c else None, c, p))"

definition query_request :: "FhirClient \<Rightarrow> string option \<Rightarrow> string \<Rightarrow> http_request" where
  "query_request c token query =
     \<lparr>url = fhir_baseUrl c @ ''/api/secure/query'', http_method = Some ''POST'',
      headers = [(''Content-Type'', ''application/json''), (''Authorization'', bearer token)],
      body = Some (Json [(''query'', query)])\<rparr>"

definition executeQuery :: "world \<Rightarrow> string \<Rightarrow> FhirClient \<Rightarrow> proc \<Rightarrow>
    (error + string) \<times> FhirClient \<times> proc" where
  "executeQuery w query c p =
     (case choose_token w c p of
        (token, c1, p1) \<Rightarrow>
          if \<not> truthy_str token then (Inl NoAccessToken, c1, p1)
          else
            (let rq = query_request c1 token query; p2 = issue rq p1
             in case api_server w rq of
                  Fetch_rejected \<Rightarrow> (Inl TransportFailure, c1, p2)
                | Fetch_response r \<Rightarrow>
                    if \<not> ok r
                    then (Inl (QueryExecutionFailed (status r) (statusText r) (body_text r)), c1, p2)
                    else (case json r of
                            None \<Rightarrow> (Inl BodyNotJson, c1, p2)
                          | Some v \<Rightarrow> (Inr v, c1, p2))))"

definition base_headers :: "fetch_options \<Rightarrow> (string \<times> string) list" where
  "base_headers opts =
     spread [(''Accept'', ''application/fhir+json''), (''Content-Type'', ''application/fhir+json'')]
       (case fo_headers opts of None \<Rightarrow> [] | Some hs \<Rightarrow> hs)"

text \<open>The header choice of \<^verbatim>\<open>request\<close>: the manager's token when it is read, the manual
  token when the read throws or no manager is there, no header when neither exists.\<close>

definition auth_headers :: "world \<Rightarrow> fetch_options \<Rightarrow> FhirClient \<Rightarrow> proc \<Rightarrow>
    (string \<times> string) list \<times> FhirClient \<times> proc" where
  "auth_headers w opts c p =
     (let hs = base_headers opts;
          manual = (if truthy_str (accessToken c)
                    then set_header ''Authorization'' (bearer (accessToken c)) hs else hs)
      in case smartAuth c of
           Some a \<Rightarrow>
             (case getAccessToken w a p of
                (Inr t, a', p') \<Rightarrow>
                  (set_header ''Authorization'' (bearer t) hs, c\<lparr>smartAuth := Some a'\<rparr>, p')
              | (Inl e, a', p') \<Rightarrow> (manual, c\<lparr>smartAuth := Some a'\<rparr>, p'))
         | None \<Rightarrow> (manual, c, p))"

definition request :: "world \<Rightarrow> string \<Rightarrow> fetch_options \<Rightarrow> FhirClient \<Rightarrow> proc \<Rightarrow>
    (error + string) \<times> FhirClient \<times> proc" where
  "request w path opts c p =
     (case url_resolve w path (fhir_baseUrl c) of
        None \<Rightarrow> (Inl InvalidUrl, c, p)
      | Some u \<Rightarrow>
          (case auth_headers w opts c p of
             (hs, c1, p1) \<Rightarrow>
               (let rq = \<lparr>url = u, http_method = fo_method opts, headers = hs,
                          body = fo_body opts\<rparr>;
                    p2 = issue rq p1
                in case api_server w rq of
                     Fetch_rejected \<Rightarrow> (Inl TransportFailure, c1, p2)
                   | Fetch_response r \<Rightarrow>
                       if \<not> ok r then (Inl (FhirRequestFailed (status r) (statusText r)), c1, p2)
                       else (case json r of
                               None \<Rightarrow> (Inl BodyNotJson, c1, p2)
                             | Some v \<Rightarrow> (Inr v, c1, p2)))))"

section \<open>The server script: the module variable authToken and its helpers\<close>

definition API_BASE_URL :: string where
  "API_BASE_URL = ''https://firefly-optimum-initially.ngrok-free.app''"

definition probe_request :: "string \<Rightarrow> http_request" where
  "probe_request token =
     \<lparr>url = API_BASE_URL @ ''/secure/summary'', http_method = None,
      headers = [(''Authorization'', ''Bearer '' @ token), (''Content-Type'', ''application/json'')],
      body = None\<rparr>"

text \<open>\<^verbatim>\<open>isTokenValid\<close>: the answer and the process afterwards.\<close>

definition isTokenValid :: "world \<Rightarrow> string \<Rightarrow> proc \<Rightarrow> bool \<times> proc" where
  "isTokenValid w token p =
     (let rq = probe_request token; p1 = issue rq p
      in case api_server w rq of
           Fetch_rejected \<Rightarrow> (False, p1)
         | Fetch_response r \<Rightarrow> (status r = 200, p1))"

definition api_request :: "string \<Rightarrow> string \<Rightarrow> string \<Rightarrow> (string \<times> string) list option \<Rightarrow> http_request" where
  "api_request token endpoint m b =
     \<lparr>url = API_BASE_URL @ endpoint, http_method = Some m,
      headers = [(''Authorization'', ''Bearer '' @ token), (''Content-Type'', ''application/json'')],
      body = (case b of
                None \<Rightarrow> None
              | Some kvs \<Rightarrow> if m = ''POST'' \<or> m = ''PUT'' then Some (Json kvs) else None)\<rparr>"

text \<open>\<^verbatim>\<open>makeAuthenticatedRequest\<close>: the module variable \<^verbatim>\<open>authToken\<close> is passed in and
  returned; the method defaults to GET.\<close>

definition default_method :: "string option \<Rightarrow> string" where
  "default_method meth = (case meth of None \<Rightarrow> ''GET'' | Some x \<Rightarrow> x)"

definition makeAuthenticatedRequest :: "world \<Rightarrow> string \<Rightarrow> string option \<Rightarrow>
    (string \<times> string) list option \<Rightarrow> string option \<Rightarrow> proc \<Rightarrow>
    (error + string) \<times> string option \<times> proc" where
  "makeAuthenticatedRequest w endpoint meth b authToken p =
     (if \<not> truthy_str authToken then (Inl NoAuthToken, authToken, p)
      else
        (let rq = api_request (template authToken) endpoint (default_method meth) b;
             p1 = issue rq p
         in case api_server w rq of
              Fetch_rejected \<Rightarrow> (Inl TransportFailure, authToken, p1)
            | Fetch_response r \<Rightarrow>
                if \<not> ok r
                then (if status r = 401 then (Inl AuthenticationExpired, None, p1)
                      else (Inl (ApiRequestFailed (status r)), authToken, p1))
                else (case json r of
                        None \<Rightarrow> (Inl BodyNotJson, authToken, p1)
                      | Some v \<Rightarrow> (Inr v, authToken, p1))))"

section \<open>Concrete processes and worlds\<close>

text \<open>A manager configured against one server, holding the given token or none.\<close>

definition demo_auth :: "TokenResponse option \<Rightarrow> SmartAuth" where
  "demo_auth tok =
     \<lparr>clientId = ''app'', clientSecret = None, redirectUri = ''http://localhost/cb'',
      scope = ''openid'', authorizeUrl = ''https://ehr.example/authorize'',
      tokenUrl = ''https://ehr.example/token'', baseUrl = ''https://ehr.example'',
      tokenStorage = ''/home/u/.fhir-mcp-tokens.json'', currentToken = tok\<rparr>"

definition demo_options :: options where
  "demo_options =
     \<lparr>opt_clientId = ''app'', opt_clientSecret = None,
      opt_redirectUri = ''http://localhost/cb'', opt_scope = ''openid'',
      opt_authorizeUrl = ''https://ehr.example/authorize'',
      opt_tokenUrl = ''https://ehr.example/token'', opt_baseUrl = None\<rparr>"

text \<open>A token issued at 1000000 ms for one hour, with the given refresh token.\<close>

definition demo_token :: "string option \<Rightarrow> TokenResponse" where
  "demo_token rt =
     \<lparr>access_token = Some ''T1'', token_type = Some ''Bearer'', expires_in = Some 3600,
      refresh_token = rt, token_scope = None, patient = None, id_token = None,
      issued_at = Some 1000000\<rparr>"

text \<open>What the token endpoint of the demo world answers: no issue time yet.\<close>

definition fresh_token :: TokenResponse where
  "fresh_token =
     \<lparr>access_token = Some ''T2'', token_type = Some ''Bearer'', expires_in = Some 3600,
      refresh_token = Some ''R2'', token_scope = None, patient = None, id_token = None,
      issued_at = None\<rparr>"

definition vendor_reply :: responseData where
  "vendor_reply =
     \<lparr>rd_token = Some ''T1'', rd_access_token = None, rd_token_type = None,
      rd_expires_in = None, rd_refresh_token = None\<rparr>"

definition demo_proc :: "token_file \<Rightarrow> bool \<Rightarrow> proc" where
  "demo_proc f wr = \<lparr>files = \<lparr>content = f, write_ok = wr, unlink_ok = True\<rparr>, trace = []\<rparr>"

definition reply :: "nat \<Rightarrow> string \<Rightarrow> 'a \<Rightarrow> 'a fetch_result" where
  "reply st txt v =
     Fetch_response \<lparr>status = st, statusText = txt, body_text = ''body'', json = Some v\<rparr>"

text \<open>A world whose clock stands at \<open>now\<close> and whose servers all answer with status \<open>st\<close>.\<close>

definition demo_world :: "int \<Rightarrow> nat \<Rightarrow> world" where
  "demo_world now st =
     \<lparr>clock = (\<lambda>tr. now), homedir = ''/home/u'',
      path_join = (\<lambda>dir name. dir @ ''/'' @ name),
      url_origin = (\<lambda>u. Some ''https://ehr.example''),
      url_resolve = (\<lambda>path base. Some (base @ ''/'' @ path)),
      token_server = (\<lambda>rq. reply st ''status'' fresh_token),
      signin_server = (\<lambda>rq. reply st ''status'' vendor_reply),
      api_server = (\<lambda>rq. reply st ''status'' ''{}'')\<rparr>"

definition demo_client :: "string option \<Rightarrow> SmartAuth option \<Rightarrow> FhirClient" where
  "demo_client manual sa =
     \<lparr>fhir_baseUrl = ''https://ehr.example'', accessToken = manual, smartAuth = sa\<rparr>"

definition no_options :: fetch_options where
  "no_options = \<lparr>fo_method = None, fo_headers = None, fo_body = None\<rparr>"

text \<open>The same process on a disk that refuses every write.\<close>

definition read_only :: "proc \<Rightarrow> proc" where
  "read_only p = p\<lparr>files := (files p)\<lparr>write_ok := False\<rparr>\<rparr>"

text \<open>The same process with the token file removed.\<close>

definition without_file :: "proc \<Rightarrow> proc" where
  "without_file p = p\<lparr>files := (files p)\<lparr>content := Absent\<rparr>\<rparr>"

section \<open>Basic facts\<close>

lemma fl_exact: "\<bar>x\<bar> < 9007199254740992 \<Longrightarrow> fl x = Num x"
proof -
  assume "\<bar>x\<bar> < 9007199254740992"
  then have n: "nat \<bar>x\<bar> < 2 ^ 53"
    by simp
  then have r: "round_mag (nat \<bar>x\<bar>) = nat \<bar>x\<bar>"
    by (simp add: round_mag_def)
  have "nat \<bar>x\<bar> < (2::nat) ^ 1024"
    using n by (rule less_trans) simp
  then show ?thesis
    unfolding fl_def r Let_def by (auto simp: not_le)
qed

text \<open>Rounding is visible above \<open>2 ^ 53\<close>: the product below is a tie between two
  floats and goes to the one with the even significand.\<close>

lemma bit_length_example: "bit_length 72057594037929000 = 57"
  by (simp add: bit_length.simps)

lemma js_times_rounds: "js_times 72057594037929 1000 = Num 72057594037928992"
  unfolding js_times_def fl_def round_mag_def Let_def by (simp add: bit_length_example)

text \<open>With these two fields the exact horizon is 1700000001064 and the computed one
  1700000001056, so a read at 1699999701063 already finds the token about to expire.\<close>

lemma rounding_moves_threshold:
  "about_to_expire
     ((demo_token None)\<lparr>expires_in := Some 72057594037929,
                         issued_at := Some (- 72055894037927936)\<rparr>)
     1699999701063"
  by (simp add: about_to_expire_def expiresAt_def js_times_rounds fl_exact)

text \<open>Where every intermediate value stays below \<open>2 ^ 53\<close> in magnitude the test is the
  one on the exact integers.\<close>

lemma about_to_expire_exact:
  assumes "expires_in t = Some e" and "e \<noteq> 0"
    and "\<bar>e * 1000\<bar> < 9007199254740992"
    and "\<bar>or_num_default (issued_at t) now + e * 1000\<bar> < 9007199254740992"
    and "\<bar>or_num_default (issued_at t) now + e * 1000 - 5 * 60 * 1000\<bar> < 9007199254740992"
  shows "about_to_expire t now
           = (or_num_default (issued_at t) now + e * 1000 \<noteq> 0
              \<and> or_num_default (issued_at t) now + e * 1000 - 5 * 60 * 1000 < now)"
proof -
  have 1: "js_times e 1000 = Num (e * 1000)"
    unfolding js_times_def using assms(3) by (rule fl_exact)
  show ?thesis
    unfolding about_to_expire_def expiresAt_def
    using assms(1,2) fl_exact [OF assms(4)] fl_exact [OF assms(5)]
    by (simp add: 1)
qed

text \<open>The demo tokens: issued at \<open>i\<close> for 3600 s, read at \<open>now\<close>.\<close>

lemma demo_expiry:
  assumes "expires_in t = Some 3600" and "issued_at t = Some i" and "i \<noteq> 0"
    and "0 \<le> i" and "i < 1000000000000" and "i + 3600000 \<noteq> 0"
  shows "about_to_expire t now = (i + 3300000 < now)"
proof -
  have "about_to_expire t now
      = (or_num_default (issued_at t) now + 3600 * 1000 \<noteq> 0
         \<and> or_num_default (issued_at t) now + 3600 * 1000 - 5 * 60 * 1000 < now)"
    by (rule about_to_expire_exact [OF assms(1)]) (use assms in simp_all)
  then show ?thesis
    using assms by (simp add: ac_simps)
qed

lemma demo_token_expiry: "about_to_expire (demo_token rt) now = (4300000 < now)"
  using demo_expiry [of "demo_token rt" 1000000 now] by (simp add: demo_token_def)

lemma read_fresh:
  assumes "currentToken a = Some t" and "\<not> about_to_expire t (Date_now w p)"
  shows "getAccessToken w a p = (Inr (access_token t), a, p)"
  using assms by (simp add: getAccessToken_def)

lemma read_expired:
  assumes "currentToken a = Some t" and "about_to_expire t (Date_now w p)"
    and "\<not> truthy_str (refresh_token t)"
  shows "getAccessToken w a p = (Inl TokenExpiredNoRefresh, a, p)"
  using assms by (simp add: getAccessToken_def)

lemma demo_read:
  assumes "clock w (trace q) \<le> 4300000"
  shows "getAccessToken w (demo_auth (Some (demo_token rt))) q
           = (Inr (Some ''T1''), demo_auth (Some (demo_token rt)), q)"
proof -
  have c: "currentToken (demo_auth (Some (demo_token rt))) = Some (demo_token rt)"
    by (simp add: demo_auth_def)
  have x: "\<not> about_to_expire (demo_token rt) (Date_now w q)"
    using assms by (simp add: demo_token_expiry Date_now_def)
  have a: "access_token (demo_token rt) = Some ''T1''"
    by (simp add: demo_token_def)
  show ?thesis
    unfolding read_fresh [OF c x] a ..
qed

lemma trace_issue: "trace (issue rq p) = trace p @ [rq]"
  by (simp add: issue_def)

lemma files_issue: "files (issue rq p) = files p"
  by (simp add: issue_def)

lemma saveToken_written:
  assumes "write_ok (files p)" and "saveToken w (a\<lparr>currentToken := Some t\<rparr>) p = (a', p')"
  shows "\<exists>t'. a' = a\<lparr>currentToken := Some t'\<rparr> \<and> content (files p') = Stored t'"
  using assms by (cases "truthy_num (issued_at t)") (auto simp: saveToken_def Let_def)

lemma trace_saveToken: "trace (snd (saveToken w a p)) = trace p"
  by (simp add: saveToken_def Let_def split: option.splits)

lemma trace_adopt: "trace (snd (snd (adopt w tok a p))) = trace p"
proof (cases "saveToken w (a\<lparr>currentToken := Some tok\<rparr>) p")
  case (Pair a' p')
  with trace_saveToken [of w "a\<lparr>currentToken := Some tok\<rparr>" p] show ?thesis
    by (simp add: adopt_def split: option.splits)
qed

lemma adopt_result:
  "\<exists>t p'. adopt w tok a p = (Inr t, a\<lparr>currentToken := Some t\<rparr>, p')
     \<and> t = (if truthy_num (issued_at tok) then tok else tok\<lparr>issued_at := Some (Date_now w p)\<rparr>)"
  by (simp add: adopt_def saveToken_def Let_def)

lemma read_only_issue: "issue rq (read_only p) = read_only (issue rq p)"
  by (simp add: issue_def read_only_def)

lemma adopt_read_only:
  "fst (adopt w tok a (read_only p)) = fst (adopt w tok a p)
   \<and> fst (snd (adopt w tok a (read_only p))) = fst (snd (adopt w tok a p))"
  by (simp add: adopt_def saveToken_def Let_def read_only_def Date_now_def)

lemma exchange_read_only:
  "fst (exchangeCodeForToken w code a (read_only p)) = fst (exchangeCodeForToken w code a p)
   \<and> fst (snd (exchangeCodeForToken w code a (read_only p)))
       = fst (snd (exchangeCodeForToken w code a p))"
  by (simp add: exchangeCodeForToken_def Let_def read_only_issue adopt_read_only
      split: fetch_result.splits option.splits)

lemma refresh_read_only:
  "fst (refreshToken w arg a (read_only p)) = fst (refreshToken w arg a p)
   \<and> fst (snd (refreshToken w arg a (read_only p))) = fst (snd (refreshToken w arg a p))"
  by (simp add: refreshToken_def Let_def read_only_issue adopt_read_only
      split: fetch_result.splits option.splits)

lemma signIn_read_only:
  "fst (signIn w u pw a (read_only p)) = fst (signIn w u pw a p)
   \<and> fst (snd (signIn w u pw a (read_only p))) = fst (snd (signIn w u pw a p))"
proof -
  have "Date_now w (read_only (issue (signin_request a u pw) p))
          = Date_now w (issue (signin_request a u pw) p)"
    by (simp add: Date_now_def read_only_def)
  then show ?thesis
    by (simp add: signIn_def Let_def read_only_issue adopt_read_only
        split: fetch_result.splits option.splits)
qed

lemma loadToken_reset: "(loadToken a p)\<lparr>currentToken := None\<rparr> = a\<lparr>currentToken := None\<rparr>"
  by (simp add: loadToken_def split: token_file.splits)

lemma blank_reset: "(blank_SmartAuth w opts b)\<lparr>currentToken := None\<rparr> = blank_SmartAuth w opts b"
  by (simp add: blank_SmartAuth_def)

lemma new_SmartAuth_config:
  assumes "new_SmartAuth w opts p0 = Inr a0"
  shows "new_SmartAuth w opts p = Inr (loadToken (a0\<lparr>currentToken := None\<rparr>) p)"
proof -
  obtain b where b: "(if truthy_str (opt_baseUrl opts) then opt_baseUrl opts
            else url_origin w (opt_authorizeUrl opts)) = Some b"
    and a0: "a0 = loadToken (blank_SmartAuth w opts b) p0"
    using assms unfolding new_SmartAuth_def by (auto split: option.splits)
  have "a0\<lparr>currentToken := None\<rparr> = blank_SmartAuth w opts b"
    unfolding a0 loadToken_reset blank_reset ..
  then show ?thesis
    unfolding new_SmartAuth_def b by simp
qed

lemma new_SmartAuth_damaged:
  assumes "content (files p) = Corrupt \<or> content (files p) = Unreadable"
  shows "new_SmartAuth w opts p = new_SmartAuth w opts (without_file p)"
proof -
  have "loadToken (blank_SmartAuth w opts b) p
          = loadToken (blank_SmartAuth w opts b) (without_file p)" for b
    using assms by (auto simp: loadToken_def without_file_def blank_SmartAuth_def)
  then show ?thesis
    by (simp add: new_SmartAuth_def split: option.splits)
qed

lemma new_SmartAuth_no_token:
  assumes "content (files p) = Corrupt \<or> content (files p) = Unreadable"
    and "new_SmartAuth w opts p = Inr b"
  shows "currentToken b = None"
proof -
  have "currentToken (loadToken a p) = None" for a
    using assms(1) by (auto simp: loadToken_def)
  with assms(2) show ?thesis
    unfolding new_SmartAuth_def by (auto split: option.splits)
qed

section \<open>Refresh without a refresh token\<close>

text \<open>
  C4. When \<^verbatim>\<open>refreshToken\<close> is called with no usable argument and the manager holds no
  token, or a token without a refresh token, it fails with \<open>NoRefreshToken\<close>; the manager
  and the process are returned as they were, so the list of issued requests has not grown
  and nothing was sent to the token endpoint.
\<close>

theorem refresh_without_token:
  assumes "\<not> truthy_str arg"
    and "currentToken a = None \<or> (\<exists>t. currentToken a = Some t \<and> \<not> truthy_str (refresh_token t))"
  shows "refreshToken w arg a p = (Inl NoRefreshToken, a, p)"
proof -
  have "\<not> truthy_str (tokenToUse arg a)"
    using assms by (auto simp: tokenToUse_def or_str_def)
  then show ?thesis
    by (simp add: refreshToken_def)
qed

theorem refresh_without_token_witness:
  "\<not> truthy_str None
   \<and> currentToken (demo_auth (Some (demo_token None))) = Some (demo_token None)
   \<and> \<not> truthy_str (refresh_token (demo_token None))
   \<and> refreshToken (demo_world 0 200) None (demo_auth (Some (demo_token None))) (demo_proc Absent True)
       = (Inl NoRefreshToken, demo_auth (Some (demo_token None)), demo_proc Absent True)
   \<and> trace (demo_proc Absent True) = []"
  using refresh_without_token [of None "demo_auth (Some (demo_token None))" "demo_world 0 200" "demo_proc Absent True"]
  by (simp add: demo_auth_def demo_token_def demo_proc_def)

section \<open>A rejected code exchange\<close>

text \<open>
  C5. When the token endpoint answers the code exchange with a status outside 200..299,
  \<^verbatim>\<open>exchangeCodeForToken\<close> fails with \<open>TokenExchangeFailed\<close> carrying that status and its
  status text; the manager, and so its live token, is returned unchanged, and the token
  file is what it was before the call.
\<close>

theorem exchange_failure_leaves_state:
  assumes "token_server w (exchange_request a code) = Fetch_response r"
    and "\<not> ok r"
  shows "exchangeCodeForToken w code a p =
           (Inl (TokenExchangeFailed (status r) (statusText r)), a, issue (exchange_request a code) p)
         \<and> files (issue (exchange_request a code) p) = files p"
  using assms by (simp add: exchangeCodeForToken_def Let_def files_issue)

theorem exchange_failure_leaves_state_witness:
  "token_server (demo_world 0 400) (exchange_request (demo_auth (Some (demo_token None))) ''abc'')
     = reply 400 ''status'' fresh_token
   \<and> fst (exchangeCodeForToken (demo_world 0 400) ''abc'' (demo_auth (Some (demo_token None)))
            (demo_proc (Stored (demo_token None)) True))
       = Inl (TokenExchangeFailed 400 ''status'')
   \<and> currentToken (fst (snd (exchangeCodeForToken (demo_world 0 400) ''abc''
        (demo_auth (Some (demo_token None))) (demo_proc (Stored (demo_token None)) True))))
       = Some (demo_token None)
   \<and> content (files (snd (snd (exchangeCodeForToken (demo_world 0 400) ''abc''
        (demo_auth (Some (demo_token None))) (demo_proc (Stored (demo_token None)) True)))))
       = Stored (demo_token None)"
  using exchange_failure_leaves_state [of "demo_world 0 400" "demo_auth (Some (demo_token None))" "''abc''"
      "\<lparr>status = 400, statusText = ''status'', body_text = ''body'', json = Some fresh_token\<rparr>"
      "demo_proc (Stored (demo_token None)) True"]
  by (simp add: demo_world_def reply_def ok_def demo_auth_def demo_proc_def)

section \<open>Sign-in\<close>

text \<open>
  C6. Whenever the sign-in endpoint answers: with a status outside 200..299,
  \<^verbatim>\<open>signIn\<close> fails with \<open>AuthenticationFailed\<close> carrying the status, the status text and
  the body; with a status in 200..299 and a JSON body, it returns a token that is also the
  manager's live token, whose access token is the body's \<^verbatim>\<open>token\<close> when that is usable
  and its \<^verbatim>\<open>access_token\<close> otherwise, whose kind is the body's or Bearer by default,
  whose expiry is the body's or 3600 when the body gives none, whose refresh token is the
  body's, and whose issue time is the clock reading after the answer arrived.
\<close>

theorem signIn_normalises:
  assumes "signin_server w (signin_request a username password) = Fetch_response r"
  shows "(\<not> ok r \<longrightarrow>
            fst (signIn w username password a p)
              = Inl (AuthenticationFailed (status r) (statusText r) (body_text r)))
       \<and> (ok r \<longrightarrow> json r = Some d \<longrightarrow>
            (\<exists>tok. fst (signIn w username password a p) = Inr tok
               \<and> currentToken (fst (snd (signIn w username password a p))) = Some tok
               \<and> access_token tok = (if truthy_str (rd_token d) then rd_token d else rd_access_token d)
               \<and> (truthy_str (rd_token_type d) \<longrightarrow> token_type tok = rd_token_type d)
               \<and> (\<not> truthy_str (rd_token_type d) \<longrightarrow> token_type tok = Some ''Bearer'')
               \<and> (truthy_num (rd_expires_in d) \<longrightarrow> expires_in tok = rd_expires_in d)
               \<and> (rd_expires_in d = None \<longrightarrow> expires_in tok = Some 3600)
               \<and> refresh_token tok = rd_refresh_token d
               \<and> issued_at tok = Some (clock w (trace p @ [signin_request a username password]))))"
proof (intro conjI impI)
  assume "\<not> ok r"
  with assms show "fst (signIn w username password a p)
      = Inl (AuthenticationFailed (status r) (statusText r) (body_text r))"
    by (simp add: signIn_def Let_def)
next
  let ?rq = "signin_request a username password"
  let ?tok = "adapt d (Date_now w (issue ?rq p))"
  assume r: "ok r" "json r = Some d"
  obtain t p' where ad: "adopt w ?tok a (issue ?rq p) = (Inr t, a\<lparr>currentToken := Some t\<rparr>, p')"
    and t: "t = (if truthy_num (issued_at ?tok) then ?tok
                 else ?tok\<lparr>issued_at := Some (Date_now w (issue ?rq p))\<rparr>)"
    using adopt_result [of w ?tok a "issue ?rq p"] by blast
  have si: "signIn w username password a p = (Inr t, a\<lparr>currentToken := Some t\<rparr>, p')"
    using assms r ad by (simp add: signIn_def Let_def)
  have iss: "issued_at t = Some (clock w (trace p @ [?rq]))"
    using t by (simp add: adapt_def Date_now_def trace_issue)
  have acc: "access_token t = (if truthy_str (rd_token d) then rd_token d else rd_access_token d)"
    using t by (simp add: adapt_def or_str_def)
  have ty1: "truthy_str (rd_token_type d) \<longrightarrow> token_type t = rd_token_type d"
    using t by (cases "rd_token_type d") (simp_all add: adapt_def)
  have ty2: "\<not> truthy_str (rd_token_type d) \<longrightarrow> token_type t = Some ''Bearer''"
    using t by (cases "rd_token_type d") (simp_all add: adapt_def)
  have ex1: "truthy_num (rd_expires_in d) \<longrightarrow> expires_in t = rd_expires_in d"
    using t by (cases "rd_expires_in d") (simp_all add: adapt_def)
  have ex2: "rd_expires_in d = None \<longrightarrow> expires_in t = Some 3600"
    using t by (simp add: adapt_def)
  have rf: "refresh_token t = rd_refresh_token d"
    using t by (simp add: adapt_def)
  show "\<exists>tok. fst (signIn w username password a p) = Inr tok
               \<and> currentToken (fst (snd (signIn w username password a p))) = Some tok
               \<and> access_token tok = (if truthy_str (rd_token d) then rd_token d else rd_access_token d)
               \<and> (truthy_str (rd_token_type d) \<longrightarrow> token_type tok = rd_token_type d)
               \<and> (\<not> truthy_str (rd_token_type d) \<longrightarrow> token_type tok = Some ''Bearer'')
               \<and> (truthy_num (rd_expires_in d) \<longrightarrow> expires_in tok = rd_expires_in d)
               \<and> (rd_expires_in d = None \<longrightarrow> expires_in tok = Some 3600)
               \<and> refresh_token tok = rd_refresh_token d
               \<and> issued_at tok = Some (clock w (trace p @ [signin_request a username password]))"
    using si iss acc ty1 ty2 ex1 ex2 rf by simp
qed

theorem signIn_normalises_witness:
  "signin_server (demo_world 5000 200) (signin_request (demo_auth None) ''a'' ''b'')
     = reply 200 ''status'' vendor_reply
   \<and> map_sum id access_token
        (fst (signIn (demo_world 5000 200) ''a'' ''b'' (demo_auth None) (demo_proc Absent True)))
       = Inr (Some ''T1'')
   \<and> map_sum id token_type
        (fst (signIn (demo_world 5000 200) ''a'' ''b'' (demo_auth None) (demo_proc Absent True)))
       = Inr (Some ''Bearer'')
   \<and> map_sum id expires_in
        (fst (signIn (demo_world 5000 200) ''a'' ''b'' (demo_auth None) (demo_proc Absent True)))
       = Inr (Some 3600)
   \<and> map_sum id issued_at
        (fst (signIn (demo_world 5000 200) ''a'' ''b'' (demo_auth None) (demo_proc Absent True)))
       = Inr (Some 5000)
   \<and> signin_server (demo_world 5000 403) (signin_request (demo_auth None) ''a'' ''b'')
     = reply 403 ''status'' vendor_reply
   \<and> fst (signIn (demo_world 5000 403) ''a'' ''b'' (demo_auth None) (demo_proc Absent True))
       = Inl (AuthenticationFailed 403 ''status'' ''body'')"
proof -
  let ?r = "\<lambda>st. \<lparr>status = st, statusText = ''status'', body_text = ''body'',
                  json = Some vendor_reply\<rparr>"
  have s2: "signin_server (demo_world 5000 200) (signin_request (demo_auth None) ''a'' ''b'')
      = Fetch_response (?r 200)"
    by (simp add: demo_world_def reply_def)
  have s4: "signin_server (demo_world 5000 403) (signin_request (demo_auth None) ''a'' ''b'')
      = Fetch_response (?r 403)"
    by (simp add: demo_world_def reply_def)
  have bad: "fst (signIn (demo_world 5000 403) ''a'' ''b'' (demo_auth None) (demo_proc Absent True))
       = Inl (AuthenticationFailed 403 ''status'' ''body'')"
    using signIn_normalises [OF s4, of "demo_proc Absent True" vendor_reply]
    by (simp add: ok_def)
  from signIn_normalises [OF s2, of "demo_proc Absent True" vendor_reply]
  obtain tok where tok: "fst (signIn (demo_world 5000 200) ''a'' ''b'' (demo_auth None)
        (demo_proc Absent True)) = Inr tok"
    and f: "access_token tok = Some ''T1''" "token_type tok = Some ''Bearer''"
      "expires_in tok = Some 3600" "issued_at tok = Some 5000"
    by (auto simp: ok_def vendor_reply_def demo_world_def)
  show ?thesis
    unfolding tok by (intro conjI bad) (simp_all add: f demo_world_def)
qed

section \<open>The validity probe\<close>

text \<open>
  C7, as the code has it. \<^verbatim>\<open>isTokenValid\<close> issues exactly one probe request and answers
  true exactly when the request completes with status 200; every other status, 401 or
  not, and a rejected request give false.
\<close>

theorem probe_valid_iff_200:
  "fst (isTokenValid w token p)
     = (\<exists>r. api_server w (probe_request token) = Fetch_response r \<and> status r = 200)
   \<and> trace (snd (isTokenValid w token p)) = trace p @ [probe_request token]"
  by (simp add: isTokenValid_def Let_def trace_issue split: fetch_result.splits)

theorem probe_valid_iff_200_witness:
  "fst (isTokenValid (demo_world 0 200) ''T1'' (demo_proc Absent True))
   \<and> \<not> fst (isTokenValid (demo_world 0 403) ''T1'' (demo_proc Absent True))"
  using probe_valid_iff_200 [of "demo_world 0 200" "''T1''" "demo_proc Absent True"]
    probe_valid_iff_200 [of "demo_world 0 403" "''T1''" "demo_proc Absent True"]
  by (simp add: demo_world_def reply_def)

text \<open>The probe completes with status 500, which is not 401, and the answer is false.\<close>

theorem probe_non_401_counterexample:
  "api_server (demo_world 0 500) (probe_request ''T1'') = reply 500 ''status'' ''{}''
   \<and> (500::nat) \<noteq> 401
   \<and> fst (isTokenValid (demo_world 0 500) ''T1'' (demo_proc Absent True)) = False"
  by (simp add: isTokenValid_def Let_def demo_world_def reply_def)

lemma adopt_refused:
  "\<exists>t p'. adopt w tok a (read_only p) = (Inr t, a\<lparr>currentToken := Some t\<rparr>, p')
     \<and> access_token t = access_token tok \<and> content (files p') = content (files p)"
  by (simp add: adopt_def saveToken_def Let_def read_only_def)

lemma exchange_refused:
  assumes "token_server w (exchange_request a code) = Fetch_response r"
    and "ok r" and "json r = Some tok"
  shows "\<exists>t. fst (exchangeCodeForToken w code a (read_only p)) = Inr t
       \<and> currentToken (fst (snd (exchangeCodeForToken w code a (read_only p)))) = Some t
       \<and> access_token t = access_token tok
       \<and> content (files (snd (snd (exchangeCodeForToken w code a (read_only p)))))
           = content (files p)"
proof -
  let ?q = "issue (exchange_request a code) p"
  obtain t p' where ad: "adopt w tok a (read_only ?q) = (Inr t, a\<lparr>currentToken := Some t\<rparr>, p')"
    and f: "access_token t = access_token tok" "content (files p') = content (files ?q)"
    using adopt_refused [of w tok a ?q] by blast
  have "exchangeCodeForToken w code a (read_only p) = adopt w tok a (read_only ?q)"
    using assms by (simp add: exchangeCodeForToken_def Let_def read_only_issue)
  with ad f show ?thesis
    by (simp add: files_issue)
qed

lemma refresh_refused:
  assumes "truthy_str (tokenToUse arg a)"
    and "token_server w (refresh_request a (template (tokenToUse arg a))) = Fetch_response r"
    and "ok r" and "json r = Some tok"
  shows "\<exists>t. fst (refreshToken w arg a (read_only p)) = Inr t
       \<and> currentToken (fst (snd (refreshToken w arg a (read_only p)))) = Some t
       \<and> access_token t = access_token tok
       \<and> content (files (snd (snd (refreshToken w arg a (read_only p))))) = content (files p)"
proof -
  let ?q = "issue (refresh_request a (template (tokenToUse arg a))) p"
  obtain t p' where ad: "adopt w tok a (read_only ?q) = (Inr t, a\<lparr>currentToken := Some t\<rparr>, p')"
    and f: "access_token t = access_token tok" "content (files p') = content (files ?q)"
    using adopt_refused [of w tok a ?q] by blast
  have "refreshToken w arg a (read_only p) = adopt w tok a (read_only ?q)"
    using assms by (simp add: refreshToken_def Let_def read_only_issue)
  with ad f show ?thesis
    by (simp add: files_issue)
qed

lemma signIn_refused:
  assumes "signin_server w (signin_request a u pw) = Fetch_response r"
    and "ok r" and "json r = Some d"
  shows "\<exists>t. fst (signIn w u pw a (read_only p)) = Inr t
       \<and> currentToken (fst (snd (signIn w u pw a (read_only p)))) = Some t
       \<and> access_token t = (if truthy_str (rd_token d) then rd_token d else rd_access_token d)
       \<and> content (files (snd (snd (signIn w u pw a (read_only p))))) = content (files p)"
proof -
  let ?q = "issue (signin_request a u pw) p"
  let ?tok = "adapt d (Date_now w (read_only ?q))"
  obtain t p' where ad: "adopt w ?tok a (read_only ?q) = (Inr t, a\<lparr>currentToken := Some t\<rparr>, p')"
    and f: "access_token t = access_token ?tok" "content (files p') = content (files ?q)"
    using adopt_refused [of w ?tok a ?q] by blast
  have "signIn w u pw a (read_only p) = adopt w ?tok a (read_only ?q)"
    using assms by (simp add: signIn_def Let_def read_only_issue)
  with ad f show ?thesis
    by (simp add: files_issue adapt_def or_str_def)
qed

section \<open>Best-effort persistence\<close>

text \<open>
  C8. On a disk that refuses every write, each acquisition (code exchange, refresh,
  sign-in) returns the same result and leaves the manager with the same live token as
  on a disk that accepts the write. In particular, when the server answers with a status
  in 200..299 and a JSON body, the acquisition on the refusing disk succeeds: it returns
  a token carrying the access token of the answer, that token is the manager's live
  token, and the token file is left as it was. And when the token file is corrupt or
  unreadable, construction behaves exactly as with no file at all, and a manager it
  returns holds no token.
\<close>

theorem persistence_best_effort:
  "fst (exchangeCodeForToken w code a (read_only p)) = fst (exchangeCodeForToken w code a p)
   \<and> fst (snd (exchangeCodeForToken w code a (read_only p)))
       = fst (snd (exchangeCodeForToken w code a p))
   \<and> fst (refreshToken w arg a (read_only p)) = fst (refreshToken w arg a p)
   \<and> fst (snd (refreshToken w arg a (read_only p))) = fst (snd (refreshToken w arg a p))
   \<and> fst (signIn w u pw a (read_only p)) = fst (signIn w u pw a p)
   \<and> fst (snd (signIn w u pw a (read_only p))) = fst (snd (signIn w u pw a p))
   \<and> (content (files p) = Corrupt \<or> content (files p) = Unreadable \<longrightarrow>
        new_SmartAuth w opts p = new_SmartAuth w opts (without_file p)
        \<and> (\<forall>b. new_SmartAuth w opts p = Inr b \<longrightarrow> currentToken b = None))
   \<and> (token_server w (exchange_request a code) = Fetch_response r \<longrightarrow> ok r \<longrightarrow>
        json r = Some tok \<longrightarrow>
        (\<exists>t. fst (exchangeCodeForToken w code a (read_only p)) = Inr t
           \<and> currentToken (fst (snd (exchangeCodeForToken w code a (read_only p)))) = Some t
           \<and> access_token t = access_token tok
           \<and> content (files (snd (snd (exchangeCodeForToken w code a (read_only p)))))
               = content (files p)))
   \<and> (truthy_str (tokenToUse arg a) \<longrightarrow>
        token_server w (refresh_request a (template (tokenToUse arg a))) = Fetch_response r' \<longrightarrow>
        ok r' \<longrightarrow> json r' = Some tok' \<longrightarrow>
        (\<exists>t. fst (refreshToken w arg a (read_only p)) = Inr t
           \<and> currentToken (fst (snd (refreshToken w arg a (read_only p)))) = Some t
           \<and> access_token t = access_token tok'
           \<and> content (files (snd (snd (refreshToken w arg a (read_only p)))))
               = content (files p)))
   \<and> (signin_server w (signin_request a u pw) = Fetch_response r'' \<longrightarrow> ok r'' \<longrightarrow>
        json r'' = Some d \<longrightarrow>
        (\<exists>t. fst (signIn w u pw a (read_only p)) = Inr t
           \<and> currentToken (fst (snd (signIn w u pw a (read_only p)))) = Some t
           \<and> access_token t = (if truthy_str (rd_token d) then rd_token d else rd_access_token d)
           \<and> content (files (snd (snd (signIn w u pw a (read_only p))))) = content (files p)))"
proof -
  note same = exchange_read_only [of w code a p] refresh_read_only [of w arg a p]
    signIn_read_only [of w u pw a p]
  have damaged: "content (files p) = Corrupt \<or> content (files p) = Unreadable \<longrightarrow>
        new_SmartAuth w opts p = new_SmartAuth w opts (without_file p)
        \<and> (\<forall>b. new_SmartAuth w opts p = Inr b \<longrightarrow> currentToken b = None)"
    using new_SmartAuth_damaged [of p w opts] new_SmartAuth_no_token [of p w opts] by blast
  show ?thesis
    by (intro conjI impI damaged [rule_format] same [THEN conjunct1] same [THEN conjunct2]
        exchange_refused refresh_refused signIn_refused)
qed

theorem persistence_best_effort_witness:
  "content (files (demo_proc Corrupt True)) = Corrupt
   \<and> new_SmartAuth (demo_world 5000 200) demo_options (without_file (demo_proc Corrupt True))
       = Inr (demo_auth None)
   \<and> new_SmartAuth (demo_world 5000 200) demo_options (demo_proc Corrupt True)
       = Inr (demo_auth None)
   \<and> currentToken (demo_auth None) = None
   \<and> fst (exchangeCodeForToken (demo_world 5000 200) ''abc'' (demo_auth None)
        (read_only (demo_proc Corrupt True))) = Inr (fresh_token\<lparr>issued_at := Some 5000\<rparr>)
   \<and> currentToken (fst (snd (exchangeCodeForToken (demo_world 5000 200) ''abc'' (demo_auth None)
        (read_only (demo_proc Corrupt True))))) = Some (fresh_token\<lparr>issued_at := Some 5000\<rparr>)
   \<and> fst (refreshToken (demo_world 5000 200) (Some ''R1'') (demo_auth None)
        (read_only (demo_proc Corrupt True))) = Inr (fresh_token\<lparr>issued_at := Some 5000\<rparr>)
   \<and> currentToken (fst (snd (refreshToken (demo_world 5000 200) (Some ''R1'') (demo_auth None)
        (read_only (demo_proc Corrupt True))))) = Some (fresh_token\<lparr>issued_at := Some 5000\<rparr>)
   \<and> map_sum id access_token (fst (signIn (demo_world 5000 200) ''a'' ''b'' (demo_auth None)
        (read_only (demo_proc Corrupt True)))) = Inr (Some ''T1'')
   \<and> map_option access_token (currentToken (fst (snd (signIn (demo_world 5000 200) ''a'' ''b''
        (demo_auth None) (read_only (demo_proc Corrupt True)))))) = Some (Some ''T1'')
   \<and> content (files (snd (snd (signIn (demo_world 5000 200) ''a'' ''b'' (demo_auth None)
        (read_only (demo_proc Corrupt True)))))) = Corrupt"
proof -
  let ?w = "demo_world 5000 200"
  let ?p = "demo_proc Corrupt True"
  let ?f = "fresh_token\<lparr>issued_at := Some 5000\<rparr>"
  let ?r = "\<lparr>status = 200, statusText = ''status'', body_text = ''body'',
            json = Some vendor_reply\<rparr>"
  note t = persistence_best_effort [of ?w "''abc''" "demo_auth None" ?p "Some ''R1''"
      "''a''" "''b''" demo_options _ _ _ _ ?r vendor_reply]
  have c: "content (files ?p) = Corrupt"
    by (simp add: demo_proc_def)
  have m: "new_SmartAuth ?w demo_options (without_file ?p) = Inr (demo_auth None)"
    by (simp add: without_file_def demo_proc_def new_SmartAuth_def blank_SmartAuth_def
        demo_world_def demo_options_def demo_auth_def loadToken_def)
  have n: "new_SmartAuth ?w demo_options ?p = Inr (demo_auth None)"
    using t c m by simp
  have k: "currentToken (demo_auth None) = None"
    using t c n by blast
  have e: "exchangeCodeForToken ?w ''abc'' (demo_auth None) ?p
      = (Inr ?f, demo_auth (Some ?f),
         issue (exchange_request (demo_auth None) ''abc'') (demo_proc (Stored ?f) True))"
    by (simp add: exchangeCodeForToken_def Let_def demo_world_def reply_def ok_def adopt_def
        saveToken_def fresh_token_def Date_now_def issue_def demo_proc_def demo_auth_def)
  have e2: "currentToken (fst (snd (exchangeCodeForToken ?w ''abc'' (demo_auth None) ?p)))
      = Some ?f"
    unfolding e by (simp add: demo_auth_def)
  have r1: "fst (exchangeCodeForToken ?w ''abc'' (demo_auth None) (read_only ?p)) = Inr ?f"
    unfolding conjunct1 [OF t] e by simp
  have r2: "currentToken (fst (snd (exchangeCodeForToken ?w ''abc'' (demo_auth None)
        (read_only ?p)))) = Some ?f"
    unfolding conjunct1 [OF conjunct2 [OF t]] by (rule e2)
  have f: "refreshToken ?w (Some ''R1'') (demo_auth None) ?p
      = (Inr ?f, demo_auth (Some ?f),
         issue (refresh_request (demo_auth None) ''R1'') (demo_proc (Stored ?f) True))"
    by (simp add: refreshToken_def tokenToUse_def or_str_def Let_def demo_world_def reply_def
        ok_def adopt_def
        saveToken_def fresh_token_def Date_now_def issue_def demo_proc_def demo_auth_def)
  have f2: "currentToken (fst (snd (refreshToken ?w (Some ''R1'') (demo_auth None) ?p)))
      = Some ?f"
    unfolding f by (simp add: demo_auth_def)
  have r3: "fst (refreshToken ?w (Some ''R1'') (demo_auth None) (read_only ?p)) = Inr ?f"
    unfolding conjunct1 [OF conjunct2 [OF conjunct2 [OF t]]] f by simp
  have r4: "currentToken (fst (snd (refreshToken ?w (Some ''R1'') (demo_auth None)
        (read_only ?p)))) = Some ?f"
    unfolding conjunct1 [OF conjunct2 [OF conjunct2 [OF conjunct2 [OF t]]]] by (rule f2)
  have sv: "signin_server ?w (signin_request (demo_auth None) ''a'' ''b'') = Fetch_response ?r"
    by (simp add: demo_world_def reply_def)
  have okr: "ok ?r"
    by (simp add: ok_def)
  have js: "json ?r = Some vendor_reply"
    by simp
  from t sv okr js
  obtain tk where s1: "fst (signIn ?w ''a'' ''b'' (demo_auth None) (read_only ?p)) = Inr tk"
    and s2: "currentToken (fst (snd (signIn ?w ''a'' ''b'' (demo_auth None) (read_only ?p))))
        = Some tk"
    and s3: "access_token tk
        = (if truthy_str (rd_token vendor_reply) then rd_token vendor_reply
           else rd_access_token vendor_reply)"
    and s4: "content (files (snd (snd (signIn ?w ''a'' ''b'' (demo_auth None) (read_only ?p)))))
        = content (files ?p)"
    by blast
  have s3': "access_token tk = Some ''T1''"
    using s3 by (simp add: vendor_reply_def)
  have r5: "map_sum id access_token (fst (signIn ?w ''a'' ''b'' (demo_auth None)
        (read_only ?p))) = Inr (Some ''T1'')"
    unfolding s1 by (simp add: s3')
  have r6: "map_option access_token (currentToken (fst (snd (signIn ?w ''a'' ''b''
        (demo_auth None) (read_only ?p))))) = Some (Some ''T1'')"
    unfolding s2 by (simp add: s3')
  have r7: "content (files (snd (snd (signIn ?w ''a'' ''b'' (demo_auth None)
        (read_only ?p))))) = Corrupt"
    unfolding s4 by (rule c)
  show ?thesis
    by (intro conjI c m n k r1 r2 r3 r4 r5 r6 r7)
qed

section \<open>Restart\<close>

text \<open>
  C9. Let a manager built from some options hold any token and save it on a disk that
  accepts the write. A manager built afterwards from the same options, in the same
  world, is the original manager as it is after the save; so a token read in the new
  process gives the same result, the same manager and the same requests as the read in
  the original process under the same clock, servers and history.
\<close>

theorem reload_reads_alike:
  assumes "new_SmartAuth w opts p0 = Inr a0"
    and "write_ok (files p)"
    and "saveToken w1 (a0\<lparr>currentToken := Some t\<rparr>) p = (a', p')"
  shows "new_SmartAuth w opts p' = Inr a'
       \<and> (\<forall>b. new_SmartAuth w opts p' = Inr b \<longrightarrow>
             getAccessToken w2 b q = getAccessToken w2 a' q)"
proof -
  obtain t' where a': "a' = a0\<lparr>currentToken := Some t'\<rparr>" and f: "content (files p') = Stored t'"
    using saveToken_written [OF assms(2,3)] by blast
  have "loadToken (a0\<lparr>currentToken := None\<rparr>) p' = a'"
    by (simp add: loadToken_def f a')
  then have "new_SmartAuth w opts p' = Inr a'"
    using new_SmartAuth_config [OF assms(1), of p'] by simp
  then show ?thesis by simp
qed

theorem reload_reads_alike_witness:
  "new_SmartAuth (demo_world 5000 200) demo_options (demo_proc Absent True) = Inr (demo_auth None)
   \<and> write_ok (files (demo_proc Absent True))
   \<and> saveToken (demo_world 5000 200) ((demo_auth None)\<lparr>currentToken := Some fresh_token\<rparr>)
        (demo_proc Absent True)
       = (demo_auth (Some (fresh_token\<lparr>issued_at := Some 5000\<rparr>)),
          demo_proc (Stored (fresh_token\<lparr>issued_at := Some 5000\<rparr>)) True)
   \<and> new_SmartAuth (demo_world 5000 200) demo_options
        (demo_proc (Stored (fresh_token\<lparr>issued_at := Some 5000\<rparr>)) True)
       = Inr (demo_auth (Some (fresh_token\<lparr>issued_at := Some 5000\<rparr>)))
   \<and> getAccessToken (demo_world 6000 200) (demo_auth (Some (fresh_token\<lparr>issued_at := Some 5000\<rparr>)))
        (demo_proc (Stored (fresh_token\<lparr>issued_at := Some 5000\<rparr>)) True)
       = (Inr (Some ''T2''), demo_auth (Some (fresh_token\<lparr>issued_at := Some 5000\<rparr>)),
          demo_proc (Stored (fresh_token\<lparr>issued_at := Some 5000\<rparr>)) True)"
proof -
  have c: "new_SmartAuth (demo_world 5000 200) demo_options (demo_proc Absent True)
      = Inr (demo_auth None)"
    by (simp add: new_SmartAuth_def blank_SmartAuth_def demo_world_def demo_options_def
        demo_proc_def demo_auth_def loadToken_def)
  have w: "write_ok (files (demo_proc Absent True))"
    by (simp add: demo_proc_def)
  have s: "saveToken (demo_world 5000 200) ((demo_auth None)\<lparr>currentToken := Some fresh_token\<rparr>)
        (demo_proc Absent True)
       = (demo_auth (Some (fresh_token\<lparr>issued_at := Some 5000\<rparr>)),
          demo_proc (Stored (fresh_token\<lparr>issued_at := Some 5000\<rparr>)) True)"
    by (simp add: saveToken_def Let_def demo_auth_def demo_proc_def fresh_token_def
        demo_world_def Date_now_def)
  have g: "getAccessToken (demo_world 6000 200) (demo_auth (Some (fresh_token\<lparr>issued_at := Some 5000\<rparr>)))
        (demo_proc (Stored (fresh_token\<lparr>issued_at := Some 5000\<rparr>)) True)
       = (Inr (Some ''T2''), demo_auth (Some (fresh_token\<lparr>issued_at := Some 5000\<rparr>)),
          demo_proc (Stored (fresh_token\<lparr>issued_at := Some 5000\<rparr>)) True)"
  proof -
    let ?f = "fresh_token\<lparr>issued_at := Some 5000\<rparr>"
    have cur: "currentToken (demo_auth (Some ?f)) = Some ?f"
      by (simp add: demo_auth_def)
    have dn: "Date_now (demo_world 6000 200) (demo_proc (Stored ?f) True) = 6000"
      by (simp add: Date_now_def demo_world_def)
    have ex: "\<not> about_to_expire ?f (Date_now (demo_world 6000 200) (demo_proc (Stored ?f) True))"
      unfolding dn using demo_expiry [of ?f 5000 6000] by (simp add: fresh_token_def)
    have acc: "access_token ?f = Some ''T2''"
      by (simp add: fresh_token_def)
    show ?thesis
      unfolding read_fresh [OF cur ex] acc ..
  qed
  note r = reload_reads_alike [OF c w s, of "demo_world 6000 200"
      "demo_proc (Stored (fresh_token\<lparr>issued_at := Some 5000\<rparr>)) True"]
  show ?thesis
    by (intro conjI c w s g conjunct1 [OF r])
qed

lemma about_to_expire_eq:
  assumes "expires_in t = Some e" and "e \<noteq> 0" and "issued_at t = Some i" and "i \<noteq> 0"
    and "i + e * 1000 \<noteq> 0"
    and "\<bar>e * 1000\<bar> < 9007199254740992"
    and "\<bar>i + e * 1000\<bar> < 9007199254740992"
    and "\<bar>i + e * 1000 - 5 * 60 * 1000\<bar> < 9007199254740992"
  shows "about_to_expire t now = (now > i + e * 1000 - 5 * 60 * 1000)"
proof -
  have o: "or_num_default (issued_at t) now = i"
    using assms(3,4) by simp
  show ?thesis
    using about_to_expire_exact [of t e now] assms unfolding o by simp
qed

lemma tokenToUse_arg: "truthy_str arg \<Longrightarrow> tokenToUse arg a = arg"
  by (simp add: tokenToUse_def or_str_def)

lemma refresh_trace:
  assumes "truthy_str (tokenToUse arg a)"
  shows "trace (snd (snd (refreshToken w arg a p)))
           = trace p @ [refresh_request a (template (tokenToUse arg a))]"
  using assms
  by (simp add: refreshToken_def Let_def trace_issue trace_adopt
      split: fetch_result.splits option.splits)

lemma adopt_current:
  assumes "adopt w tok a p = (Inr t, a', p')"
  shows "currentToken a' = Some t"
  using assms adopt_result [of w tok a p] by auto

lemma refresh_current:
  assumes "refreshToken w arg a p = (Inr t, a', p')"
  shows "currentToken a' = Some t"
  using assms
  by (auto simp: refreshToken_def Let_def
      split: if_splits fetch_result.splits option.splits dest: adopt_current)

lemma read_after_refresh:
  assumes "currentToken a = Some t" and "about_to_expire t (Date_now w p)"
    and "truthy_str (refresh_token t)"
  shows "fst (getAccessToken w a p) = map_sum id access_token (fst (refreshToken w (refresh_token t) a p))
       \<and> snd (getAccessToken w a p) = snd (refreshToken w (refresh_token t) a p)"
proof (cases "refreshToken w (refresh_token t) a p")
  case (fields res a' p')
  show ?thesis
  proof (cases res)
    case (Inl e)
    with fields assms show ?thesis
      by (simp add: getAccessToken_def)
  next
    case (Inr tok)
    with fields have "currentToken a' = Some tok"
      using refresh_current by blast
    with fields Inr assms show ?thesis
      by (simp add: getAccessToken_def)
  qed
qed

section \<open>The refresh threshold of a token read\<close>

text \<open>
  C2, as the code has it. Let the live token carry a non-zero \<^verbatim>\<open>expires_in\<close> and a
  non-zero \<^verbatim>\<open>issued_at\<close> whose horizon \<open>issued_at + expires_in * 1000\<close> is not zero, and
  let \<open>expires_in * 1000\<close>, the horizon and the horizon minus five minutes all be below
  \<open>2 ^ 53\<close> in magnitude, where binary64 arithmetic is exact. A read
  one millisecond before the horizon minus five minutes returns the token's access token
  and changes nothing: no request is issued. A read one millisecond after it, when the
  token has a refresh token, issues exactly one request, a POST to the token URL whose
  form has grant type \<^verbatim>\<open>refresh_token\<close> and that refresh token, and returns what the
  refresh gives (the new access token, or the
  refresh's failure); when the token has no refresh token, the read fails with
  \<open>TokenExpiredNoRefresh\<close> and issues no request.
\<close>

theorem read_at_refresh_threshold:
  assumes "currentToken a = Some t"
    and "expires_in t = Some e" and "e \<noteq> 0"
    and "issued_at t = Some i" and "i \<noteq> 0"
    and "i + e * 1000 \<noteq> 0"
    and "\<bar>e * 1000\<bar> < 9007199254740992"
    and "\<bar>i + e * 1000\<bar> < 9007199254740992"
    and "\<bar>i + e * 1000 - 5 * 60 * 1000\<bar> < 9007199254740992"
  shows "(clock w (trace p) = i + e * 1000 - 5 * 60 * 1000 - 1 \<longrightarrow>
            getAccessToken w a p = (Inr (access_token t), a, p))
       \<and> (clock w (trace p) = i + e * 1000 - 5 * 60 * 1000 + 1 \<longrightarrow>
            truthy_str (refresh_token t) \<longrightarrow>
            trace (snd (snd (getAccessToken w a p)))
              = trace p @ [refresh_request a (template (refresh_token t))]
            \<and> url (refresh_request a (template (refresh_token t))) = tokenUrl a
            \<and> http_method (refresh_request a (template (refresh_token t))) = Some ''POST''
            \<and> (\<exists>ps. body (refresh_request a (template (refresh_token t))) = Some (Form ps)
                  \<and> map_of ps ''grant_type'' = Some ''refresh_token''
                  \<and> map_of ps ''refresh_token'' = refresh_token t)
            \<and> fst (getAccessToken w a p)
                = map_sum id access_token (fst (refreshToken w (refresh_token t) a p)))
       \<and> (clock w (trace p) = i + e * 1000 - 5 * 60 * 1000 + 1 \<longrightarrow>
            \<not> truthy_str (refresh_token t) \<longrightarrow>
            getAccessToken w a p = (Inl TokenExpiredNoRefresh, a, p))"
proof (intro conjI impI)
  assume "clock w (trace p) = i + e * 1000 - 5 * 60 * 1000 - 1"
  then have "\<not> about_to_expire t (Date_now w p)"
    using about_to_expire_eq [OF assms(2-9)] by (simp add: Date_now_def)
  with assms(1) show "getAccessToken w a p = (Inr (access_token t), a, p)"
    by (simp add: getAccessToken_def)
next
  assume c: "clock w (trace p) = i + e * 1000 - 5 * 60 * 1000 + 1"
    and r: "truthy_str (refresh_token t)"
  have x: "about_to_expire t (Date_now w p)"
    using c about_to_expire_eq [OF assms(2-9)] by (simp add: Date_now_def)
  note ra = read_after_refresh [OF assms(1) x r]
  have u: "tokenToUse (refresh_token t) a = refresh_token t"
    using r by (rule tokenToUse_arg)
  have "trace (snd (snd (refreshToken w (refresh_token t) a p)))
      = trace p @ [refresh_request a (template (refresh_token t))]"
    using refresh_trace [of "refresh_token t" a w p] r u by simp
  with ra show "trace (snd (snd (getAccessToken w a p)))
      = trace p @ [refresh_request a (template (refresh_token t))]"
    by simp
  from ra show "fst (getAccessToken w a p)
      = map_sum id access_token (fst (refreshToken w (refresh_token t) a p))"
    by simp
  show "url (refresh_request a (template (refresh_token t))) = tokenUrl a"
    and "http_method (refresh_request a (template (refresh_token t))) = Some ''POST''"
    by (simp_all add: refresh_request_def token_request_def)
  show "\<exists>ps. body (refresh_request a (template (refresh_token t))) = Some (Form ps)
                  \<and> map_of ps ''grant_type'' = Some ''refresh_token''
                  \<and> map_of ps ''refresh_token'' = refresh_token t"
    using r by (cases "refresh_token t") (simp_all add: refresh_request_def token_request_def)
next
  assume c: "clock w (trace p) = i + e * 1000 - 5 * 60 * 1000 + 1"
    and r: "\<not> truthy_str (refresh_token t)"
  have "about_to_expire t (Date_now w p)"
    using c about_to_expire_eq [OF assms(2-9)] by (simp add: Date_now_def)
  with assms(1) r show "getAccessToken w a p = (Inl TokenExpiredNoRefresh, a, p)"
    by (simp add: getAccessToken_def)
qed

theorem read_at_refresh_threshold_witness:
  "currentToken (demo_auth (Some (demo_token (Some ''R1'')))) = Some (demo_token (Some ''R1''))
   \<and> expires_in (demo_token (Some ''R1'')) = Some 3600
   \<and> issued_at (demo_token (Some ''R1'')) = Some 1000000
   \<and> truthy_str (refresh_token (demo_token (Some ''R1'')))
   \<and> clock (demo_world 4299999 200) (trace (demo_proc Absent True))
       = 1000000 + 3600 * 1000 - 5 * 60 * 1000 - 1
   \<and> getAccessToken (demo_world 4299999 200) (demo_auth (Some (demo_token (Some ''R1''))))
        (demo_proc Absent True)
       = (Inr (Some ''T1''), demo_auth (Some (demo_token (Some ''R1''))), demo_proc Absent True)
   \<and> clock (demo_world 4300001 200) (trace (demo_proc Absent True))
       = 1000000 + 3600 * 1000 - 5 * 60 * 1000 + 1
   \<and> trace (snd (snd (getAccessToken (demo_world 4300001 200)
        (demo_auth (Some (demo_token (Some ''R1'')))) (demo_proc Absent True))))
       = [refresh_request (demo_auth (Some (demo_token (Some ''R1'')))) ''R1'']
   \<and> fst (getAccessToken (demo_world 4300001 200)
        (demo_auth (Some (demo_token (Some ''R1'')))) (demo_proc Absent True))
       = Inr (Some ''T2'')
   \<and> \<bar>3600 * 1000\<bar> < (9007199254740992::int)
   \<and> \<bar>1000000 + 3600 * 1000\<bar> < (9007199254740992::int)
   \<and> \<bar>1000000 + 3600 * 1000 - 5 * 60 * 1000\<bar> < (9007199254740992::int)"
proof -
  let ?t = "demo_token (Some ''R1'')"
  let ?a = "demo_auth (Some ?t)"
  let ?p = "demo_proc Absent True"
  have h1: "currentToken ?a = Some ?t"
    by (simp add: demo_auth_def)
  have h2: "expires_in ?t = Some 3600" and h3: "issued_at ?t = Some 1000000"
    and h4: "truthy_str (refresh_token ?t)" and h5: "access_token ?t = Some ''T1''"
    and h6: "template (refresh_token ?t) = ''R1''"
    by (simp_all add: demo_token_def)
  have k1: "clock (demo_world 4299999 200) (trace ?p) = 1000000 + 3600 * 1000 - 5 * 60 * 1000 - 1"
    and k2: "clock (demo_world 4300001 200) (trace ?p) = 1000000 + 3600 * 1000 - 5 * 60 * 1000 + 1"
    by (simp_all add: demo_world_def)
  have tp: "trace ?p = []"
    by (simp add: demo_proc_def)
  have rf: "fst (refreshToken (demo_world 4300001 200) (refresh_token ?t) ?a ?p)
      = Inr (fresh_token\<lparr>issued_at := Some 4300001\<rparr>)"
    by (simp add: refreshToken_def tokenToUse_arg [OF h4] h4 Let_def demo_world_def reply_def
        ok_def adopt_def saveToken_def fresh_token_def Date_now_def issue_def demo_proc_def)
  note b = read_at_refresh_threshold [OF h1 h2 _ h3, of "demo_world 4299999 200" ?p]
  note a = read_at_refresh_threshold [OF h1 h2 _ h3, of "demo_world 4300001 200" ?p]
  have r1: "getAccessToken (demo_world 4299999 200) ?a ?p = (Inr (Some ''T1''), ?a, ?p)"
    using b k1 by (simp add: h5)
  have r2: "trace (snd (snd (getAccessToken (demo_world 4300001 200) ?a ?p)))
      = [refresh_request ?a ''R1'']"
    using a k2 h4 by (simp add: h6 tp)
  have r3: "fst (getAccessToken (demo_world 4300001 200) ?a ?p) = Inr (Some ''T2'')"
    using a k2 h4 by (simp add: rf fresh_token_def)
  show ?thesis
    by (intro conjI h1 h2 h3 h4 k1 k2 r1 r2 r3) simp_all
qed

text \<open>A token without a refresh token, read one millisecond past the threshold: the read
  fails and no request is issued.\<close>

theorem read_past_threshold_counterexample:
  "currentToken (demo_auth (Some (demo_token None))) = Some (demo_token None)
   \<and> expires_in (demo_token None) = Some 3600
   \<and> issued_at (demo_token None) = Some 1000000
   \<and> clock (demo_world 4300001 200) (trace (demo_proc Absent True))
       = 1000000 + 3600 * 1000 - 5 * 60 * 1000 + 1
   \<and> getAccessToken (demo_world 4300001 200) (demo_auth (Some (demo_token None)))
        (demo_proc Absent True)
       = (Inl TokenExpiredNoRefresh, demo_auth (Some (demo_token None)), demo_proc Absent True)
   \<and> trace (demo_proc Absent True) = []"
proof -
  have c: "currentToken (demo_auth (Some (demo_token None))) = Some (demo_token None)"
    by (simp add: demo_auth_def)
  have x: "about_to_expire (demo_token None)
      (Date_now (demo_world 4300001 200) (demo_proc Absent True))"
    by (simp add: demo_token_expiry Date_now_def demo_world_def)
  have n: "\<not> truthy_str (refresh_token (demo_token None))"
    by (simp add: demo_token_def)
  show ?thesis
    unfolding read_expired [OF c x n]
    by (simp add: demo_token_def demo_auth_def demo_world_def demo_proc_def)
qed

lemma adopt_Inr: "\<exists>t. fst (adopt w tok a p) = Inr t"
  using adopt_result [of w tok a p] by auto

lemma refresh_not_NoCredential: "fst (refreshToken w arg a p) \<noteq> Inl NoCredential"
proof -
  have "fst (adopt w tok a q) \<noteq> Inl NoCredential" for tok q
    using adopt_Inr [of w tok a q] by auto
  then show ?thesis
    by (simp add: refreshToken_def Let_def split: fetch_result.splits option.splits)
qed

lemma held_not_NoCredential:
  assumes "currentToken a \<noteq> None"
  shows "fst (getAccessToken w a p) \<noteq> Inl NoCredential"
proof -
  obtain t where t: "currentToken a = Some t"
    using assms by auto
  show ?thesis
  proof (cases "about_to_expire t (Date_now w p) \<and> truthy_str (refresh_token t)")
    case True
    then have "fst (getAccessToken w a p)
        = map_sum id access_token (fst (refreshToken w (refresh_token t) a p))"
      using read_after_refresh [OF t] by simp
    moreover have "map_sum id access_token x \<noteq> Inl NoCredential"
      if "x \<noteq> Inl NoCredential" for x :: "error + TokenResponse"
      using that by (cases x) simp_all
    ultimately show ?thesis
      using refresh_not_NoCredential [of w "refresh_token t" a p] by simp
  next
    case False
    with t show ?thesis
      by (auto simp: getAccessToken_def)
  qed
qed

lemma read_keeps_token:
  assumes "getAccessToken w a p = (Inr t, a', p')"
  shows "currentToken a' \<noteq> None"
proof (cases "currentToken a")
  case None
  with assms show ?thesis
    by (simp add: getAccessToken_def)
next
  case (Some tk)
  show ?thesis
  proof (cases "about_to_expire tk (Date_now w p)")
    case False
    with Some assms show ?thesis
      by (auto simp: getAccessToken_def)
  next
    case True
    show ?thesis
    proof (cases "truthy_str (refresh_token tk)")
      case False
      with True Some assms show ?thesis
        by (simp add: getAccessToken_def)
    next
      case r: True
      obtain res a1 p1 where f: "refreshToken w (refresh_token tk) a p = (res, a1, p1)"
        by (cases "refreshToken w (refresh_token tk) a p") auto
      from read_after_refresh [OF Some True r] assms f
      have "res \<noteq> Inl e" for e
        by auto
      then obtain tok where "res = Inr tok"
        by (cases res) auto
      with f have "currentToken a1 = Some tok"
        using refresh_current by blast
      moreover have "a' = a1"
        using read_after_refresh [OF Some True r] assms f by simp
      ultimately show ?thesis
        by simp
    qed
  qed
qed

lemma request_failure:
  assumes "url_resolve w path (fhir_baseUrl c) = Some u"
    and "auth_headers w opts c p = (hs, c1, p1)"
    and "api_server w \<lparr>url = u, http_method = fo_method opts, headers = hs, body = fo_body opts\<rparr>
           = Fetch_response r"
    and "\<not> ok r"
  shows "request w path opts c p
           = (Inl (FhirRequestFailed (status r) (statusText r)), c1,
              issue \<lparr>url = u, http_method = fo_method opts, headers = hs, body = fo_body opts\<rparr> p1)"
  using assms by (simp add: request_def Let_def)

lemma auth_headers_read:
  assumes "smartAuth c = Some a" and "getAccessToken w a p = (Inr t, a', p1)"
  shows "auth_headers w opts c p
           = (set_header ''Authorization'' (bearer t) (base_headers opts),
              c\<lparr>smartAuth := Some a'\<rparr>, p1)"
  using assms by (simp add: auth_headers_def Let_def)

lemma bearer_text:
  "bearer t = ''Bearer '' @ (case t of None \<Rightarrow> ''undefined'' | Some s \<Rightarrow> s)"
  by (cases t) (simp_all add: bearer_def)

section \<open>A 401 from the upstream API\<close>

text \<open>
  C3, as the code has it. In \<^verbatim>\<open>makeAuthenticatedRequest\<close>, when a usable \<^verbatim>\<open>authToken\<close>
  is set and the API answers with a status outside 200..299: a 401 gives
  \<open>AuthenticationExpired\<close> and leaves \<^verbatim>\<open>authToken\<close> cleared, so that a later call,
  whatever it asks for, fails with \<open>NoAuthToken\<close> and issues no request; every other
  status gives \<open>ApiRequestFailed\<close> with that status and keeps \<^verbatim>\<open>authToken\<close>.
  In \<^verbatim>\<open>FhirClient.request\<close>, when the manager's token read has succeeded and the API
  answers with any status outside 200..299, 401 included, the failure is
  \<open>FhirRequestFailed\<close> with that status and status text, the client keeps the manager as
  the read left it, that manager still holds a token, and a later token read on it does
  not fail with \<open>NoCredential\<close>.
\<close>

theorem unauthorized_clears_authToken:
  "(truthy_str tok \<longrightarrow>
      api_server w (api_request (template tok) endpoint (default_method meth) b)
        = Fetch_response r \<longrightarrow>
      \<not> ok r \<longrightarrow>
      (status r = 401 \<longrightarrow>
         fst (makeAuthenticatedRequest w endpoint meth b tok p) = Inl AuthenticationExpired
         \<and> fst (snd (makeAuthenticatedRequest w endpoint meth b tok p)) = None
         \<and> makeAuthenticatedRequest w' endpoint' meth' b'
             (fst (snd (makeAuthenticatedRequest w endpoint meth b tok p))) q
           = (Inl NoAuthToken, None, q))
      \<and> (status r \<noteq> 401 \<longrightarrow>
         fst (makeAuthenticatedRequest w endpoint meth b tok p)
           = Inl (ApiRequestFailed (status r))
         \<and> fst (makeAuthenticatedRequest w endpoint meth b tok p) \<noteq> Inl AuthenticationExpired
         \<and> fst (snd (makeAuthenticatedRequest w endpoint meth b tok p)) = tok))
   \<and> (smartAuth c = Some a \<longrightarrow>
      getAccessToken w a p = (Inr t, a', p1) \<longrightarrow>
      url_resolve w path (fhir_baseUrl c) = Some u \<longrightarrow>
      api_server w
        \<lparr>url = u, http_method = fo_method opts,
         headers = set_header ''Authorization''
                     (''Bearer '' @ (case t of None \<Rightarrow> ''undefined'' | Some s \<Rightarrow> s))
                     (base_headers opts),
         body = fo_body opts\<rparr>
        = Fetch_response r2 \<longrightarrow>
      \<not> ok r2 \<longrightarrow>
      fst (request w path opts c p) = Inl (FhirRequestFailed (status r2) (statusText r2))
      \<and> smartAuth (fst (snd (request w path opts c p))) = Some a'
      \<and> currentToken a' \<noteq> None
      \<and> fst (getAccessToken w' a' q) \<noteq> Inl NoCredential)"
proof (intro conjI impI)
  assume "truthy_str tok"
    and "api_server w (api_request (template tok) endpoint (default_method meth) b)
        = Fetch_response r"
    and "\<not> ok r" and "status r = 401"
  then show "fst (makeAuthenticatedRequest w endpoint meth b tok p) = Inl AuthenticationExpired"
    and "fst (snd (makeAuthenticatedRequest w endpoint meth b tok p)) = None"
    and "makeAuthenticatedRequest w' endpoint' meth' b'
             (fst (snd (makeAuthenticatedRequest w endpoint meth b tok p))) q
           = (Inl NoAuthToken, None, q)"
    by (simp_all add: makeAuthenticatedRequest_def Let_def)
next
  assume "truthy_str tok"
    and "api_server w (api_request (template tok) endpoint (default_method meth) b)
        = Fetch_response r"
    and "\<not> ok r" and "status r \<noteq> 401"
  then show "fst (makeAuthenticatedRequest w endpoint meth b tok p)
           = Inl (ApiRequestFailed (status r))"
    and "fst (makeAuthenticatedRequest w endpoint meth b tok p) \<noteq> Inl AuthenticationExpired"
    and "fst (snd (makeAuthenticatedRequest w endpoint meth b tok p)) = tok"
    by (simp_all add: makeAuthenticatedRequest_def Let_def)
next
  assume s: "smartAuth c = Some a" and g: "getAccessToken w a p = (Inr t, a', p1)"
    and u: "url_resolve w path (fhir_baseUrl c) = Some u"
    and sv: "api_server w
        \<lparr>url = u, http_method = fo_method opts,
         headers = set_header ''Authorization''
                     (''Bearer '' @ (case t of None \<Rightarrow> ''undefined'' | Some s \<Rightarrow> s))
                     (base_headers opts),
         body = fo_body opts\<rparr>
        = Fetch_response r2"
    and n: "\<not> ok r2"
  note ah = auth_headers_read [OF s g, of opts, unfolded bearer_text]
  note rf = request_failure [OF u ah sv n]
  show "fst (request w path opts c p) = Inl (FhirRequestFailed (status r2) (statusText r2))"
    unfolding rf by simp
  show "smartAuth (fst (snd (request w path opts c p))) = Some a'"
    unfolding rf by simp
  show k: "currentToken a' \<noteq> None"
    using g by (rule read_keeps_token)
  show "fst (getAccessToken w' a' q) \<noteq> Inl NoCredential"
    using k by (rule held_not_NoCredential)
qed

theorem unauthorized_clears_authToken_witness:
  "truthy_str (Some ''T1'')
   \<and> api_server (demo_world 1000000 401)
        (api_request (template (Some ''T1'')) ''/secure/summary'' (default_method None) None)
       = reply 401 ''status'' ''{}''
   \<and> fst (makeAuthenticatedRequest (demo_world 1000000 401) ''/secure/summary'' None None
        (Some ''T1'') (demo_proc Absent True)) = Inl AuthenticationExpired
   \<and> makeAuthenticatedRequest (demo_world 1000000 200) ''/secure/summary'' None None
        (fst (snd (makeAuthenticatedRequest (demo_world 1000000 401) ''/secure/summary'' None None
                    (Some ''T1'') (demo_proc Absent True))))
        (demo_proc Absent True)
       = (Inl NoAuthToken, None, demo_proc Absent True)
   \<and> fst (makeAuthenticatedRequest (demo_world 1000000 500) ''/secure/summary'' None None
        (Some ''T1'') (demo_proc Absent True)) = Inl (ApiRequestFailed 500)
   \<and> smartAuth (demo_client None (Some (demo_auth (Some (demo_token None)))))
       = Some (demo_auth (Some (demo_token None)))
   \<and> getAccessToken (demo_world 1000000 401) (demo_auth (Some (demo_token None)))
        (demo_proc Absent True)
       = (Inr (Some ''T1''), demo_auth (Some (demo_token None)), demo_proc Absent True)
   \<and> fst (request (demo_world 1000000 401) ''Patient/1'' no_options
        (demo_client None (Some (demo_auth (Some (demo_token None))))) (demo_proc Absent True))
       = Inl (FhirRequestFailed 401 ''status'')
   \<and> fst (request (demo_world 1000000 500) ''Patient/1'' no_options
        (demo_client None (Some (demo_auth (Some (demo_token None))))) (demo_proc Absent True))
       = Inl (FhirRequestFailed 500 ''status'')
   \<and> smartAuth (fst (snd (request (demo_world 1000000 401) ''Patient/1'' no_options
        (demo_client None (Some (demo_auth (Some (demo_token None))))) (demo_proc Absent True))))
       = Some (demo_auth (Some (demo_token None)))
   \<and> fst (getAccessToken (demo_world 1000000 200) (demo_auth (Some (demo_token None)))
        (demo_proc Absent True)) \<noteq> Inl NoCredential"
proof -
  let ?r = "\<lambda>st. \<lparr>status = st, statusText = ''status'', body_text = ''body'', json = Some ''{}''\<rparr>"
  let ?p = "demo_proc Absent True"
  let ?a = "demo_auth (Some (demo_token None))"
  let ?c = "demo_client None (Some ?a)"
  have t: "truthy_str (Some ''T1'')"
    by simp
  have s: "api_server (demo_world 1000000 st) rq = Fetch_response (?r st)" for st rq
    by (simp add: demo_world_def reply_def)
  have n1: "\<not> ok (?r 401)" and n5: "\<not> ok (?r 500)"
    by (simp_all add: ok_def)
  have st: "status (?r 401) = 401" and st': "status (?r 500) \<noteq> 401"
    by simp_all
  have sa: "smartAuth ?c = Some ?a"
    by (simp add: demo_client_def)
  have g: "getAccessToken (demo_world 1000000 st) ?a ?p = (Inr (Some ''T1''), ?a, ?p)" for st
    by (intro demo_read) (simp add: demo_world_def)
  have ur: "url_resolve (demo_world 1000000 st) ''Patient/1'' (fhir_baseUrl ?c)
      = Some ''https://ehr.example/Patient/1''" for st
    by (simp add: demo_world_def demo_client_def)
  note u = unauthorized_clears_authToken [of "Some ''T1''" "demo_world 1000000 401"
      "''/secure/summary''" None None "?r 401" ?p "demo_world 1000000 200" "''/secure/summary''"
      None None ?p ?c ?a "Some ''T1''" ?a ?p "''Patient/1''" "''https://ehr.example/Patient/1''"
      no_options "?r 401"]
  note v = unauthorized_clears_authToken [of "Some ''T1''" "demo_world 1000000 500"
      "''/secure/summary''" None None "?r 500" ?p "demo_world 1000000 200" "''/secure/summary''"
      None None ?p ?c ?a "Some ''T1''" ?a ?p "''Patient/1''" "''https://ehr.example/Patient/1''"
      no_options "?r 500"]
  have r1: "fst (makeAuthenticatedRequest (demo_world 1000000 401) ''/secure/summary'' None None
        (Some ''T1'') ?p) = Inl AuthenticationExpired"
    using u t s n1 st by blast
  have r2: "makeAuthenticatedRequest (demo_world 1000000 200) ''/secure/summary'' None None
        (fst (snd (makeAuthenticatedRequest (demo_world 1000000 401) ''/secure/summary'' None None
                    (Some ''T1'') ?p))) ?p
       = (Inl NoAuthToken, None, ?p)"
    using u t s n1 st by blast
  have r3: "fst (makeAuthenticatedRequest (demo_world 1000000 500) ''/secure/summary'' None None
        (Some ''T1'') ?p) = Inl (ApiRequestFailed (status (?r 500)))"
    using v t s n5 st' by blast
  have r4: "fst (request (demo_world 1000000 401) ''Patient/1'' no_options ?c ?p)
      = Inl (FhirRequestFailed (status (?r 401)) (statusText (?r 401)))"
    using u sa g ur s n1 by blast
  have r5: "fst (request (demo_world 1000000 500) ''Patient/1'' no_options ?c ?p)
      = Inl (FhirRequestFailed (status (?r 500)) (statusText (?r 500)))"
    using v sa g ur s n5 by blast
  have r6: "smartAuth (fst (snd (request (demo_world 1000000 401) ''Patient/1'' no_options ?c ?p)))
      = Some ?a"
    using u sa g ur s n1 by blast
  have r7: "fst (getAccessToken (demo_world 1000000 200) ?a ?p) \<noteq> Inl NoCredential"
    using u sa g ur s n1 by blast
  have s1: "api_server (demo_world 1000000 401)
        (api_request (template (Some ''T1'')) ''/secure/summary'' (default_method None) None)
       = reply 401 ''status'' ''{}''"
    by (simp add: demo_world_def)
  show ?thesis
    using r3 r4 r5 by (intro conjI t s1 r1 r2 sa g r6 r7) simp_all
qed

text \<open>\<^verbatim>\<open>FhirClient.request\<close> answered with 401: the failure is the one of every other
  status, the manager keeps its token, and the next token read succeeds.\<close>

theorem fhir_request_401_counterexample:
  "api_server (demo_world 1000000 401)
     \<lparr>url = ''https://ehr.example/Patient/1'', http_method = None,
      headers = [(''Accept'', ''application/fhir+json''),
                 (''Content-Type'', ''application/fhir+json''),
                 (''Authorization'', ''Bearer T1'')],
      body = None\<rparr>
     = reply 401 ''status'' ''{}''
   \<and> fst (request (demo_world 1000000 401) ''Patient/1'' no_options
        (demo_client None (Some (demo_auth (Some (demo_token None))))) (demo_proc Absent True))
       = Inl (FhirRequestFailed 401 ''status'')
   \<and> smartAuth (fst (snd (request (demo_world 1000000 401) ''Patient/1'' no_options
        (demo_client None (Some (demo_auth (Some (demo_token None))))) (demo_proc Absent True))))
       = Some (demo_auth (Some (demo_token None)))
   \<and> fst (getAccessToken (demo_world 1000000 401) (demo_auth (Some (demo_token None)))
        (snd (snd (request (demo_world 1000000 401) ''Patient/1'' no_options
           (demo_client None (Some (demo_auth (Some (demo_token None))))) (demo_proc Absent True)))))
       = Inr (Some ''T1'')"
proof -
  have g: "getAccessToken w (demo_auth (Some (demo_token None))) q
      = (Inr (Some ''T1''), demo_auth (Some (demo_token None)), q)"
    if "clock w (trace q) = 1000000" for w q
    using that by (intro demo_read) simp
  have r: "request (demo_world 1000000 401) ''Patient/1'' no_options
        (demo_client None (Some (demo_auth (Some (demo_token None))))) (demo_proc Absent True)
      = (Inl (FhirRequestFailed 401 ''status''),
         demo_client None (Some (demo_auth (Some (demo_token None)))),
         issue \<lparr>url = ''https://ehr.example/Patient/1'', http_method = None,
                headers = [(''Accept'', ''application/fhir+json''),
                           (''Content-Type'', ''application/fhir+json''),
                           (''Authorization'', ''Bearer T1'')],
                body = None\<rparr> (demo_proc Absent True))"
    by (simp add: request_def auth_headers_def g base_headers_def spread_def bearer_def
        no_options_def demo_client_def Let_def ok_def demo_world_def reply_def)
  show ?thesis
    unfolding r by (simp add: g demo_client_def issue_def demo_world_def reply_def)
qed

lemma map_of_set_header: "map_of (set_header k v hs) k = Some v"
  by (induction hs) auto

lemma auth_headers_failed:
  assumes "smartAuth c = Some a" and "getAccessToken w a p = (Inl e, a', p1)"
  shows "auth_headers w opts c p
           = (if truthy_str (accessToken c)
              then set_header ''Authorization'' (bearer (accessToken c)) (base_headers opts)
              else base_headers opts,
              c\<lparr>smartAuth := Some a'\<rparr>, p1)"
  using assms by (simp add: auth_headers_def Let_def)

lemma request_trace:
  assumes "url_resolve w path (fhir_baseUrl c) = Some u"
    and "auth_headers w opts c p = (hs, c1, p1)"
  shows "trace (snd (snd (request w path opts c p)))
           = trace p1 @ [\<lparr>url = u, http_method = fo_method opts, headers = hs,
                          body = fo_body opts\<rparr>]"
  using assms
  by (simp add: request_def Let_def trace_issue split: fetch_result.splits option.splits)

lemma choose_token_read:
  assumes "smartAuth c = Some a" and "getAccessToken w a p = (Inr t, a', p1)"
  shows "choose_token w c p = (t, c\<lparr>smartAuth := Some a'\<rparr>, p1)"
  using assms by (simp add: choose_token_def)

lemma choose_token_failed:
  assumes "smartAuth c = Some a" and "getAccessToken w a p = (Inl e, a', p1)"
  shows "choose_token w c p
           = (if truthy_str (accessToken c) then accessToken c else None,
              c\<lparr>smartAuth := Some a'\<rparr>, p1)"
  using assms by (simp add: choose_token_def)

lemma executeQuery_trace:
  assumes "choose_token w c p = (token, c1, p1)" and "truthy_str token"
  shows "trace (snd (snd (executeQuery w query c p)))
           = trace p1 @ [query_request c1 token query]"
  using assms
  by (simp add: executeQuery_def Let_def trace_issue split: fetch_result.splits option.splits)

lemma executeQuery_no_token:
  assumes "choose_token w c p = (token, c1, p1)" and "\<not> truthy_str token"
  shows "executeQuery w query c p = (Inl NoAccessToken, c1, p1)"
  using assms by (simp add: executeQuery_def)

lemma map_of_set_header_upd: "map_of (set_header k v hs) = (map_of hs)(k \<mapsto> v)"
  by (induction hs) (auto simp: fun_eq_iff)

lemma map_of_spread: "map_of (spread base extra) = map_of base ++ map_of (rev extra)"
  unfolding spread_def
proof (induction extra arbitrary: base)
  case Nil
  show ?case by simp
next
  case (Cons kv extra)
  have "map_of (fold (\<lambda>kv hs. set_header (fst kv) (snd kv) hs) (kv # extra) base)
      = map_of (set_header (fst kv) (snd kv) base) ++ map_of (rev extra)"
    using Cons.IH [of "set_header (fst kv) (snd kv) base"] by simp
  also have "\<dots> = map_of base ++ map_of (rev (kv # extra))"
    by (cases kv) (simp add: map_of_set_header_upd fun_eq_iff map_add_def split: option.splits)
  finally show ?case .
qed

lemma base_headers_authorization:
  "map_of (base_headers opts) ''Authorization''
     = map_of (rev (case fo_headers opts of None \<Rightarrow> [] | Some h \<Rightarrow> h)) ''Authorization''"
  by (simp add: base_headers_def map_of_spread map_add_def split: option.splits)

section \<open>A failed token read in the FHIR client\<close>

text \<open>
  C1, as the code has it. Let the client have a manager whose token read fails.
  \<^verbatim>\<open>executeQuery\<close> without a usable manual token fails with \<open>NoAccessToken\<close>, whatever
  the manager's failure was, and issues no request beyond those of the read itself; with
  a usable manual token it issues the query request with that token as Bearer
  Authorization header. \<^verbatim>\<open>request\<close> issues its request in every case where the URL
  resolves: with the manual token as Bearer Authorization header when that token is
  usable, and otherwise with the default headers and the caller's own headers only, so
  that the request has an Authorization header exactly when the caller passed one.
\<close>

theorem token_failure_fallback:
  assumes "smartAuth c = Some a"
    and "getAccessToken w a p = (Inl e, a', p1)"
  shows "(\<not> truthy_str (accessToken c) \<longrightarrow>
            executeQuery w query c p = (Inl NoAccessToken, c\<lparr>smartAuth := Some a'\<rparr>, p1))
       \<and> (truthy_str (accessToken c) \<longrightarrow>
            (\<exists>rq. trace (snd (snd (executeQuery w query c p))) = trace p1 @ [rq]
                 \<and> url rq = fhir_baseUrl c @ ''/api/secure/query''
                 \<and> map_of (headers rq) ''Authorization''
                     = Some (''Bearer '' @ (case accessToken c of None \<Rightarrow> ''undefined''
                                            | Some s \<Rightarrow> s))))
       \<and> (url_resolve w path (fhir_baseUrl c) = Some u \<longrightarrow>
            (\<exists>hs. trace (snd (snd (request w path opts c p)))
                     = trace p1 @ [\<lparr>url = u, http_method = fo_method opts, headers = hs,
                                    body = fo_body opts\<rparr>]
                 \<and> (truthy_str (accessToken c) \<longrightarrow>
                       map_of hs ''Authorization''
                         = Some (''Bearer '' @ (case accessToken c of None \<Rightarrow> ''undefined''
                                                | Some s \<Rightarrow> s)))
                 \<and> (\<not> truthy_str (accessToken c) \<longrightarrow>
                       hs = base_headers opts
                       \<and> map_of hs ''Authorization''
                           = map_of (rev (case fo_headers opts of None \<Rightarrow> [] | Some h \<Rightarrow> h))
                               ''Authorization'')))"
proof (intro conjI impI)
  assume "\<not> truthy_str (accessToken c)"
  then show "executeQuery w query c p = (Inl NoAccessToken, c\<lparr>smartAuth := Some a'\<rparr>, p1)"
    using choose_token_failed [OF assms] executeQuery_no_token [of w c p None _ p1 query]
    by simp
next
  assume m: "truthy_str (accessToken c)"
  then have "choose_token w c p = (accessToken c, c\<lparr>smartAuth := Some a'\<rparr>, p1)"
    using choose_token_failed [OF assms] by simp
  from executeQuery_trace [OF this m, of query]
  show "\<exists>rq. trace (snd (snd (executeQuery w query c p))) = trace p1 @ [rq]
                 \<and> url rq = fhir_baseUrl c @ ''/api/secure/query''
                 \<and> map_of (headers rq) ''Authorization''
                     = Some (''Bearer '' @ (case accessToken c of None \<Rightarrow> ''undefined''
                                            | Some s \<Rightarrow> s))"
    by (simp add: query_request_def bearer_text)
next
  assume u: "url_resolve w path (fhir_baseUrl c) = Some u"
  let ?hs = "if truthy_str (accessToken c)
             then set_header ''Authorization'' (bearer (accessToken c)) (base_headers opts)
             else base_headers opts"
  have "trace (snd (snd (request w path opts c p)))
      = trace p1 @ [\<lparr>url = u, http_method = fo_method opts, headers = ?hs, body = fo_body opts\<rparr>]"
    using request_trace [OF u auth_headers_failed [OF assms]] .
  moreover have "truthy_str (accessToken c) \<longrightarrow>
      map_of ?hs ''Authorization''
        = Some (''Bearer '' @ (case accessToken c of None \<Rightarrow> ''undefined'' | Some s \<Rightarrow> s))"
    by (simp add: map_of_set_header bearer_text)
  moreover have "\<not> truthy_str (accessToken c) \<longrightarrow>
      ?hs = base_headers opts
      \<and> map_of ?hs ''Authorization''
          = map_of (rev (case fo_headers opts of None \<Rightarrow> [] | Some h \<Rightarrow> h)) ''Authorization''"
    by (simp add: base_headers_authorization)
  ultimately show "\<exists>hs. trace (snd (snd (request w path opts c p)))
                     = trace p1 @ [\<lparr>url = u, http_method = fo_method opts, headers = hs,
                                    body = fo_body opts\<rparr>]
                 \<and> (truthy_str (accessToken c) \<longrightarrow>
                       map_of hs ''Authorization''
                         = Some (''Bearer '' @ (case accessToken c of None \<Rightarrow> ''undefined''
                                                | Some s \<Rightarrow> s)))
                 \<and> (\<not> truthy_str (accessToken c) \<longrightarrow>
                       hs = base_headers opts
                       \<and> map_of hs ''Authorization''
                           = map_of (rev (case fo_headers opts of None \<Rightarrow> [] | Some h \<Rightarrow> h))
                               ''Authorization'')"
    by blast
qed

theorem token_failure_fallback_witness:
  "smartAuth (demo_client None (Some (demo_auth None))) = Some (demo_auth None)
   \<and> getAccessToken (demo_world 0 200) (demo_auth None) (demo_proc Absent True)
       = (Inl NoCredential, demo_auth None, demo_proc Absent True)
   \<and> \<not> truthy_str (accessToken (demo_client None (Some (demo_auth None))))
   \<and> fst (executeQuery (demo_world 0 200) ''Patient'' (demo_client None (Some (demo_auth None)))
        (demo_proc Absent True)) = Inl NoAccessToken
   \<and> trace (snd (snd (executeQuery (demo_world 0 200) ''Patient''
        (demo_client None (Some (demo_auth None))) (demo_proc Absent True)))) = []
   \<and> url_resolve (demo_world 0 200) ''Patient/1''
        (fhir_baseUrl (demo_client None (Some (demo_auth None))))
       = Some ''https://ehr.example/Patient/1''
   \<and> map (\<lambda>rq. map_of (headers rq) ''Authorization'')
        (trace (snd (snd (request (demo_world 0 200) ''Patient/1'' no_options
           (demo_client None (Some (demo_auth None))) (demo_proc Absent True)))))
       = [None]
   \<and> map (\<lambda>rq. map_of (headers rq) ''Authorization'')
        (trace (snd (snd (request (demo_world 0 200) ''Patient/1''
           (no_options\<lparr>fo_headers := Some [(''Authorization'', ''Bearer CALLER'')]\<rparr>)
           (demo_client None (Some (demo_auth None))) (demo_proc Absent True)))))
       = [Some ''Bearer CALLER'']
   \<and> truthy_str (accessToken (demo_client (Some ''M'') (Some (demo_auth None))))
   \<and> map (\<lambda>rq. map_of (headers rq) ''Authorization'')
        (trace (snd (snd (request (demo_world 0 200) ''Patient/1'' no_options
           (demo_client (Some ''M'') (Some (demo_auth None))) (demo_proc Absent True)))))
       = [Some ''Bearer M'']
   \<and> map (\<lambda>rq. map_of (headers rq) ''Authorization'')
        (trace (snd (snd (executeQuery (demo_world 0 200) ''Patient''
           (demo_client (Some ''M'') (Some (demo_auth None))) (demo_proc Absent True)))))
       = [Some ''Bearer M'']"
proof -
  let ?c = "demo_client None (Some (demo_auth None))"
  let ?m = "demo_client (Some ''M'') (Some (demo_auth None))"
  let ?p = "demo_proc Absent True"
  let ?o = "no_options\<lparr>fo_headers := Some [(''Authorization'', ''Bearer CALLER'')]\<rparr>"
  have s: "smartAuth ?c = Some (demo_auth None)" and s': "smartAuth ?m = Some (demo_auth None)"
    by (simp_all add: demo_client_def)
  have g: "getAccessToken (demo_world 0 200) (demo_auth None) ?p
      = (Inl NoCredential, demo_auth None, ?p)"
    by (simp add: getAccessToken_def demo_auth_def)
  have m: "\<not> truthy_str (accessToken ?c)" and m': "truthy_str (accessToken ?m)"
    and am: "accessToken ?m = Some ''M''"
    by (simp_all add: demo_client_def)
  have u: "url_resolve (demo_world 0 200) ''Patient/1'' (fhir_baseUrl ?c)
      = Some ''https://ehr.example/Patient/1''"
    and u': "url_resolve (demo_world 0 200) ''Patient/1'' (fhir_baseUrl ?m)
      = Some ''https://ehr.example/Patient/1''"
    by (simp_all add: demo_world_def demo_client_def)
  have tp: "trace ?p = []"
    by (simp add: demo_proc_def)
  have h0: "(case fo_headers no_options of None \<Rightarrow> [] | Some h \<Rightarrow> h) = []"
    and h1: "(case fo_headers ?o of None \<Rightarrow> [] | Some h \<Rightarrow> h)
        = [(''Authorization'', ''Bearer CALLER'')]"
    by (simp_all add: no_options_def)
  note t = token_failure_fallback [OF s g, of "''Patient''" "''Patient/1''"
      "''https://ehr.example/Patient/1''" no_options]
  note t1 = token_failure_fallback [OF s g, of "''Patient''" "''Patient/1''"
      "''https://ehr.example/Patient/1''" ?o]
  note t2 = token_failure_fallback [OF s' g, of "''Patient''" "''Patient/1''"
      "''https://ehr.example/Patient/1''" no_options]
  have e: "executeQuery (demo_world 0 200) ''Patient'' ?c ?p
      = (Inl NoAccessToken, ?c\<lparr>smartAuth := Some (demo_auth None)\<rparr>, ?p)"
    using t m by blast
  have r1: "fst (executeQuery (demo_world 0 200) ''Patient'' ?c ?p) = Inl NoAccessToken"
    unfolding e by simp
  have r2: "trace (snd (snd (executeQuery (demo_world 0 200) ''Patient'' ?c ?p))) = []"
    unfolding e by (simp add: tp)
  obtain hs where "trace (snd (snd (request (demo_world 0 200) ''Patient/1'' no_options ?c ?p)))
      = trace ?p @ [\<lparr>url = ''https://ehr.example/Patient/1'', http_method = fo_method no_options,
                     headers = hs, body = fo_body no_options\<rparr>]"
    and "map_of hs ''Authorization''
      = map_of (rev (case fo_headers no_options of None \<Rightarrow> [] | Some h \<Rightarrow> h)) ''Authorization''"
    using t u m by blast
  then have r3: "map (\<lambda>rq. map_of (headers rq) ''Authorization'')
        (trace (snd (snd (request (demo_world 0 200) ''Patient/1'' no_options ?c ?p)))) = [None]"
    by (simp add: tp h0)
  obtain hs1 where "trace (snd (snd (request (demo_world 0 200) ''Patient/1'' ?o ?c ?p)))
      = trace ?p @ [\<lparr>url = ''https://ehr.example/Patient/1'', http_method = fo_method ?o,
                     headers = hs1, body = fo_body ?o\<rparr>]"
    and "map_of hs1 ''Authorization''
      = map_of (rev (case fo_headers ?o of None \<Rightarrow> [] | Some h \<Rightarrow> h)) ''Authorization''"
    using t1 u m by blast
  then have r4: "map (\<lambda>rq. map_of (headers rq) ''Authorization'')
        (trace (snd (snd (request (demo_world 0 200) ''Patient/1'' ?o ?c ?p))))
      = [Some ''Bearer CALLER'']"
    by (simp add: tp h1)
  obtain hs2 where "trace (snd (snd (request (demo_world 0 200) ''Patient/1'' no_options ?m ?p)))
      = trace ?p @ [\<lparr>url = ''https://ehr.example/Patient/1'', http_method = fo_method no_options,
                     headers = hs2, body = fo_body no_options\<rparr>]"
    and "map_of hs2 ''Authorization''
      = Some (''Bearer '' @ (case accessToken ?m of None \<Rightarrow> ''undefined'' | Some s \<Rightarrow> s))"
    using t2 u' m' by blast
  then have r5: "map (\<lambda>rq. map_of (headers rq) ''Authorization'')
        (trace (snd (snd (request (demo_world 0 200) ''Patient/1'' no_options ?m ?p))))
      = [Some ''Bearer M'']"
    by (simp add: tp am)
  obtain rq where "trace (snd (snd (executeQuery (demo_world 0 200) ''Patient'' ?m ?p)))
      = trace ?p @ [rq]"
    and "map_of (headers rq) ''Authorization''
      = Some (''Bearer '' @ (case accessToken ?m of None \<Rightarrow> ''undefined'' | Some s \<Rightarrow> s))"
    using t2 m' by blast
  then have r6: "map (\<lambda>rq. map_of (headers rq) ''Authorization'')
        (trace (snd (snd (executeQuery (demo_world 0 200) ''Patient'' ?m ?p))))
      = [Some ''Bearer M'']"
    by (simp add: tp am)
  show ?thesis
    by (intro conjI s g m r1 r2 u r3 r4 m' r5 r6)
qed

text \<open>The manager holds no token and no manual token is set: the token read fails, yet
  \<^verbatim>\<open>request\<close> sends the request, without Authorization header, and returns the body.\<close>

theorem unauthenticated_request_counterexample:
  "fst (getAccessToken (demo_world 0 200) (demo_auth None) (demo_proc Absent True))
     = Inl NoCredential
   \<and> request (demo_world 0 200) ''Patient/1'' no_options
        (demo_client None (Some (demo_auth None))) (demo_proc Absent True)
       = (Inr ''{}'', demo_client None (Some (demo_auth None)),
          issue \<lparr>url = ''https://ehr.example/Patient/1'', http_method = None,
                 headers = [(''Accept'', ''application/fhir+json''),
                            (''Content-Type'', ''application/fhir+json'')],
                 body = None\<rparr> (demo_proc Absent True))"
proof -
  have g: "getAccessToken w (demo_auth None) q = (Inl NoCredential, demo_auth None, q)" for w q
    by (simp add: getAccessToken_def demo_auth_def)
  show ?thesis
    by (simp add: g request_def auth_headers_def base_headers_def spread_def no_options_def
        demo_client_def Let_def ok_def demo_world_def reply_def)
qed

section \<open>The manager's token comes first\<close>

text \<open>
  C10, as the code has it. Let the client have a manager whose token read succeeds with
  token \<open>t\<close>, and let any token \<open>m\<close> have been set by \<^verbatim>\<open>setAccessToken\<close> before. The
  request that \<^verbatim>\<open>request\<close> issues carries Bearer and \<open>t\<close> as its Authorization header (the
  word undefined for an absent \<open>t\<close>). \<^verbatim>\<open>executeQuery\<close> issues its request with the same
  header when \<open>t\<close> is usable; when \<open>t\<close> is empty or absent it fails with \<open>NoAccessToken\<close>
  and issues no request. The manual token \<open>m\<close> is used in neither case.
\<close>

theorem manager_token_first:
  assumes "smartAuth c = Some a"
    and "getAccessToken w a p = (Inr t, a', p1)"
  shows "(url_resolve w path (fhir_baseUrl c) = Some u \<longrightarrow>
            (\<exists>rq. trace (snd (snd (request w path opts (setAccessToken m c) p))) = trace p1 @ [rq]
                 \<and> map_of (headers rq) ''Authorization'' = Some (''Bearer '' @ (case t of None \<Rightarrow> ''undefined'' | Some s \<Rightarrow> s))))
       \<and> (truthy_str t \<longrightarrow>
            (\<exists>rq. trace (snd (snd (executeQuery w query (setAccessToken m c) p))) = trace p1 @ [rq]
                 \<and> map_of (headers rq) ''Authorization'' = Some (''Bearer '' @ (case t of None \<Rightarrow> ''undefined'' | Some s \<Rightarrow> s))))
       \<and> (\<not> truthy_str t \<longrightarrow>
            fst (executeQuery w query (setAccessToken m c) p) = Inl NoAccessToken
            \<and> trace (snd (snd (executeQuery w query (setAccessToken m c) p))) = trace p1)"
proof -
  let ?c = "setAccessToken m c"
  have s: "smartAuth ?c = Some a" and b: "fhir_baseUrl ?c = fhir_baseUrl c"
    using assms(1) by (simp_all add: setAccessToken_def)
  note ah = auth_headers_read [OF s assms(2), of opts]
  note ct = choose_token_read [OF s assms(2)]
  show ?thesis
  proof (intro conjI impI)
    assume "url_resolve w path (fhir_baseUrl c) = Some u"
    then have "url_resolve w path (fhir_baseUrl ?c) = Some u"
      by (simp add: b)
    from request_trace [OF this ah]
    show "\<exists>rq. trace (snd (snd (request w path opts ?c p))) = trace p1 @ [rq]
             \<and> map_of (headers rq) ''Authorization'' = Some (''Bearer '' @ (case t of None \<Rightarrow> ''undefined'' | Some s \<Rightarrow> s))"
      by (simp add: map_of_set_header bearer_text)
  next
    assume "truthy_str t"
    from executeQuery_trace [OF ct this, of query]
    show "\<exists>rq. trace (snd (snd (executeQuery w query ?c p))) = trace p1 @ [rq]
             \<and> map_of (headers rq) ''Authorization'' = Some (''Bearer '' @ (case t of None \<Rightarrow> ''undefined'' | Some s \<Rightarrow> s))"
      by (simp add: query_request_def bearer_text)
  next
    assume n: "\<not> truthy_str t"
    from executeQuery_no_token [OF ct n, of query]
    show "fst (executeQuery w query ?c p) = Inl NoAccessToken"
      by simp
    from executeQuery_no_token [OF ct n, of query]
    show "trace (snd (snd (executeQuery w query ?c p))) = trace p1"
      by simp
  qed
qed

theorem manager_token_first_witness:
  "smartAuth (demo_client None (Some (demo_auth (Some (demo_token None)))))
     = Some (demo_auth (Some (demo_token None)))
   \<and> getAccessToken (demo_world 1000000 200) (demo_auth (Some (demo_token None)))
        (demo_proc Absent True)
       = (Inr (Some ''T1''), demo_auth (Some (demo_token None)), demo_proc Absent True)
   \<and> url_resolve (demo_world 1000000 200) ''Patient/1''
        (fhir_baseUrl (demo_client None (Some (demo_auth (Some (demo_token None))))))
       = Some ''https://ehr.example/Patient/1''
   \<and> map (\<lambda>rq. map_of (headers rq) ''Authorization'')
        (trace (snd (snd (request (demo_world 1000000 200) ''Patient/1'' no_options
           (setAccessToken ''M'' (demo_client None (Some (demo_auth (Some (demo_token None))))))
           (demo_proc Absent True)))))
       = [Some ''Bearer T1'']
   \<and> map (\<lambda>rq. map_of (headers rq) ''Authorization'')
        (trace (snd (snd (executeQuery (demo_world 1000000 200) ''Patient''
           (setAccessToken ''M'' (demo_client None (Some (demo_auth (Some (demo_token None))))))
           (demo_proc Absent True)))))
       = [Some ''Bearer T1'']"
proof -
  let ?a = "demo_auth (Some (demo_token None))"
  let ?c = "demo_client None (Some ?a)"
  let ?p = "demo_proc Absent True"
  have s: "smartAuth ?c = Some ?a"
    by (simp add: demo_client_def)
  have g: "getAccessToken (demo_world 1000000 200) ?a ?p = (Inr (Some ''T1''), ?a, ?p)"
    by (intro demo_read) (simp add: demo_world_def)
  have u: "url_resolve (demo_world 1000000 200) ''Patient/1'' (fhir_baseUrl ?c)
      = Some ''https://ehr.example/Patient/1''"
    by (simp add: demo_world_def demo_client_def)
  have tp: "trace ?p = []"
    by (simp add: demo_proc_def)
  note t = manager_token_first [OF s g, of "''Patient/1''" "''https://ehr.example/Patient/1''"
      no_options "''M''" "''Patient''"]
  obtain rq where "trace (snd (snd (request (demo_world 1000000 200) ''Patient/1'' no_options
        (setAccessToken ''M'' ?c) ?p))) = trace ?p @ [rq]"
    and "map_of (headers rq) ''Authorization'' = Some (''Bearer '' @ (case Some ''T1'' of None \<Rightarrow> ''undefined'' | Some s \<Rightarrow> s))"
    using t u by blast
  then have r1: "map (\<lambda>rq. map_of (headers rq) ''Authorization'')
        (trace (snd (snd (request (demo_world 1000000 200) ''Patient/1'' no_options
           (setAccessToken ''M'' ?c) ?p)))) = [Some ''Bearer T1'']"
    by (simp add: tp)
  have "truthy_str (Some ''T1'')"
    by simp
  then obtain rq' where "trace (snd (snd (executeQuery (demo_world 1000000 200) ''Patient''
        (setAccessToken ''M'' ?c) ?p))) = trace ?p @ [rq']"
    and "map_of (headers rq') ''Authorization'' = Some (''Bearer '' @ (case Some ''T1'' of None \<Rightarrow> ''undefined'' | Some s \<Rightarrow> s))"
    using t by blast
  then have r2: "map (\<lambda>rq. map_of (headers rq) ''Authorization'')
        (trace (snd (snd (executeQuery (demo_world 1000000 200) ''Patient''
           (setAccessToken ''M'' ?c) ?p)))) = [Some ''Bearer T1'']"
    by (simp add: tp)
  show ?thesis
    by (intro conjI s g u r1 r2)
qed

text \<open>The manager's read succeeds with an empty access token while a manual token is set:
  \<^verbatim>\<open>executeQuery\<close> fails and sends no request, so no header carries the manager's token.\<close>

theorem empty_manager_token_counterexample:
  "getAccessToken (demo_world 1000000 200)
     (demo_auth (Some ((demo_token None)\<lparr>access_token := Some []\<rparr>))) (demo_proc Absent True)
     = (Inr (Some []), demo_auth (Some ((demo_token None)\<lparr>access_token := Some []\<rparr>)),
        demo_proc Absent True)
   \<and> accessToken (setAccessToken ''M''
        (demo_client None (Some (demo_auth (Some ((demo_token None)\<lparr>access_token := Some []\<rparr>))))))
       = Some ''M''
   \<and> fst (executeQuery (demo_world 1000000 200) ''Patient''
        (setAccessToken ''M''
           (demo_client None (Some (demo_auth (Some ((demo_token None)\<lparr>access_token := Some []\<rparr>))))))
        (demo_proc Absent True))
       = Inl NoAccessToken
   \<and> trace (snd (snd (executeQuery (demo_world 1000000 200) ''Patient''
        (setAccessToken ''M''
           (demo_client None (Some (demo_auth (Some ((demo_token None)\<lparr>access_token := Some []\<rparr>))))))
        (demo_proc Absent True))))
       = []"
proof -
  let ?t = "(demo_token None)\<lparr>access_token := Some []\<rparr>"
  let ?a = "demo_auth (Some ?t)"
  let ?c = "setAccessToken ''M'' (demo_client None (Some ?a))"
  let ?p = "demo_proc Absent True"
  have cur: "currentToken ?a = Some ?t"
    by (simp add: demo_auth_def)
  have ex: "\<not> about_to_expire ?t (Date_now (demo_world 1000000 200) ?p)"
    using demo_expiry [of ?t 1000000 1000000]
    by (simp add: demo_token_def Date_now_def demo_world_def)
  have acc: "access_token ?t = Some []"
    by simp
  have g: "getAccessToken (demo_world 1000000 200) ?a ?p = (Inr (Some []), ?a, ?p)"
    unfolding read_fresh [OF cur ex] acc ..
  have s: "smartAuth ?c = Some ?a" and m: "accessToken ?c = Some ''M''"
    by (simp_all add: setAccessToken_def demo_client_def)
  have ct: "choose_token (demo_world 1000000 200) ?c ?p = (Some [], ?c\<lparr>smartAuth := Some ?a\<rparr>, ?p)"
    using choose_token_read [OF s g] .
  have e: "executeQuery (demo_world 1000000 200) ''Patient'' ?c ?p
      = (Inl NoAccessToken, ?c\<lparr>smartAuth := Some ?a\<rparr>, ?p)"
    by (rule executeQuery_no_token [OF ct]) simp
  have tp: "trace ?p = []"
    by (simp add: demo_proc_def)
  show ?thesis
    unfolding e by (intro conjI g m) (simp_all add: tp)
qed

end
